theory Spec2Isabelle
  imports Main "HOL-Library.Word"
begin

section \<open>Validator-side FBFT message handlers (consensus/validator.go)\<close>

text \<open>
  A shallow embedding of the handlers \<open>onAnnounce\<close>, \<open>onPrepared\<close> and
  \<open>onCommitted\<close> and of their helpers \<open>prepare\<close>, \<open>sendCommitMessages\<close>,
  \<open>getPriKeysInCommittee\<close>, \<open>constructP2pMessages\<close>,
  \<open>broadcastConsensusP2pMessages\<close> and \<open>spinUpStateSync\<close>.

  The Go methods mutate the receiver \<open>consensus\<close>; here every function takes the
  consensus state and returns the updated one. A handler returns either a panic or
  the return statement it left through together with the state it left behind.
  Collaborators that live in other files (parser, sanity checks, quorum decider,
  BLS verification, RLP, transport, catch-up) are the fields of the record \<open>env\<close>.
  The mutex and \<open>time.Sleep\<close> have no counterpart: a handler is one atomic step.
\<close>

subsection \<open>Data\<close>

type_synonym byte = "8 word"
type_synonym bytes = "byte list"
type_synonym uint64 = "64 word"
type_synonym goerror = string

text \<open>The fields of \<open>FBFTMessage\<close> that the handlers read or write.\<close>

record FBFTMessage =
  ViewID :: uint64
  BlockNum :: uint64
  BlockHash :: bytes
  Payload :: bytes
  Block :: bytes

text \<open>\<open>types.Block\<close>, by the four accessors the handlers call on it.\<close>

record types_Block =
  Epoch :: int
  Hash :: bytes
  NumberU64 :: uint64
  HeaderViewID :: uint64

datatype Mode = Normal | ViewChanging | Syncing | Listening

datatype FBFTPhase = FBFTAnnounce | FBFTPrepare | FBFTCommit

datatype TimeoutType = timeoutConsensus | timeoutViewChange | timeoutBootstrap

datatype MessageType =
  MessageType_ANNOUNCE | MessageType_PREPARE | MessageType_PREPARED
  | MessageType_COMMIT | MessageType_COMMITTED

record PrivateKeyWrapper =
  Pri :: bytes
  Pub :: bytes

record NetworkMessage =
  Phase :: MessageType
  Bytes :: bytes

text \<open>
  Modelled from the spec: \<open>bls.Mask\<close> (crypto/bls is not among the sources). The spec's
  QuorumMask is "a bitmap over committee members ... supports enabled-count and
  byte-level overwrite".
\<close>

record Mask =
  Bitmap :: bytes

definition bitsSet :: "byte \<Rightarrow> nat" where
  "bitsSet b = length (filter (bit b) [0..<8])"

definition CountEnabled :: "Mask \<Rightarrow> nat" where
  "CountEnabled m = sum_list (map bitsSet (Bitmap m))"

definition SetMask :: "Mask \<Rightarrow> bytes \<Rightarrow> Mask" where
  "SetMask m bitmap = m\<lparr>Bitmap := bitmap\<rparr>"

text \<open>
  The state. Besides the fields of the Go struct \<open>Consensus\<close> it holds the contents of
  the objects the struct points to and the handlers change:
  \<^item> \<open>masks\<close>: the heap cells of type \<open>*bls.Mask\<close>; a pointer is an index into the list,
    allocation appends. \<open>prepareBitmap\<close> and \<open>commitBitmap\<close> are such pointers.
  \<^item> \<open>fbftMessages\<close>, \<open>fbftBlocks\<close>, \<open>fbftVerified\<close>: the FBFTLog.
  \<^item> \<open>commitSigs\<close>: the commit signatures persisted by \<open>consensus.Blockchain\<close>.
  \<^item> \<open>sent\<close>: what \<open>consensus.msgSender\<close> has put on the wire, oldest first.
  \<^item> \<open>BlockNumLowChan\<close>: the number of signals waiting in the channel.
  \<^item> \<open>consensusTimeout\<close>: for each timer whether it is active.
  \<^item> \<open>current\<close>: the mode held by \<open>consensus.current\<close>.
\<close>

record Consensus =
  blockNum :: uint64
  blockHash :: bytes
  block :: bytes
  phase :: FBFTPhase
  current :: Mode
  aggregatedPrepareSig :: "bytes option"
  prepareBitmap :: "nat option"
  aggregatedCommitSig :: "bytes option"
  commitBitmap :: "nat option"
  priKey :: "PrivateKeyWrapper list"
  AggregateSig :: bool
  ShardID :: "32 word"
  consensusTimeout :: "TimeoutType \<Rightarrow> bool"
  BlockNumLowChan :: nat
  finalityCounter :: bool
  fbftMessages :: "FBFTMessage list"
  fbftBlocks :: "bytes \<rightharpoonup> types_Block"
  fbftVerified :: "bytes set"
  commitSigs :: "uint64 \<rightharpoonup> bytes"
  sent :: "(32 word \<times> bytes) list"
  masks :: "Mask list"

text \<open>
  The collaborators the handlers call and whose code is elsewhere. A Go result
  \<open>(value, err)\<close> is a sum (\<open>Inl\<close> the error), a bare \<open>error\<close> an option; the parser's
  result is kept as the pair it is, because \<open>onAnnounce\<close> reads the pointer on the
  error branch. \<open>BlockVerifier\<close> is the struct field of that name, \<open>None\<close> when nil.
\<close>

record env =
  ParseFBFTMessage :: "bytes \<Rightarrow> FBFTMessage option \<times> goerror option"
  onAnnounceSanityChecks :: "Consensus \<Rightarrow> FBFTMessage \<Rightarrow> bool"
  onPreparedSanityChecks :: "Consensus \<Rightarrow> types_Block \<Rightarrow> FBFTMessage \<Rightarrow> bool"
  checkViewID :: "Consensus \<Rightarrow> FBFTMessage \<Rightarrow> goerror option"
  IsQuorumAchievedByMask :: "Mask \<Rightarrow> bool"
  VerifyHash :: "bytes \<Rightarrow> Mask \<Rightarrow> bytes \<Rightarrow> bool"
  rlp_DecodeBytes :: "bytes \<Rightarrow> goerror + types_Block"
  BlockVerifier :: "(types_Block \<Rightarrow> goerror option) option"
  ConstructCommitPayload :: "int \<Rightarrow> bytes \<Rightarrow> uint64 \<Rightarrow> uint64 \<Rightarrow> bytes"
  construct :: "Consensus \<Rightarrow> MessageType \<Rightarrow> bytes \<Rightarrow> PrivateKeyWrapper list \<Rightarrow> goerror + NetworkMessage"
  IsValidatorInCommittee :: "Consensus \<Rightarrow> bytes \<Rightarrow> bool"
  SendWithoutRetry :: "32 word \<Rightarrow> bytes \<Rightarrow> goerror option"
  p2p_ConstructMessage :: "bytes \<Rightarrow> bytes"
  tryCatchup :: "Consensus \<Rightarrow> Consensus"
  BLSSignatureSizeInBytes :: nat

datatype panic = NilPointerDereference | SliceBoundsOutOfRange

text \<open>The return statements of the handlers, named after what they log.\<close>

datatype Exit =
  Unparseable | SanityChecksFailed | StillViewChanging | ViewIDCheckFailed
  | WrongBlockNum | PayloadReadFailed | QuorumNotAchieved | SignatureVerifyFailed
  | UnparseableBlock | NotNormalMode | NoBlockVerifier | BlockVerificationFailed
  | FutureBlock | NoMatchingBlock | OutOfSync | Completed

type_synonym outcome = "panic + Exit \<times> Consensus"

subsection \<open>Collaborators modelled from the spec\<close>

text \<open>
  Modelled from the spec: the FBFTLog (consensus/fbft_log.go is not among the
  sources), "append-only per-round store of received messages and candidate blocks,
  keyed by block number/hash/view, supporting lookup and mark-verified bookkeeping".
\<close>

definition AddMessage :: "FBFTMessage \<Rightarrow> Consensus \<Rightarrow> Consensus" where
  "AddMessage m s = s\<lparr>fbftMessages := fbftMessages s @ [m]\<rparr>"

definition AddBlock :: "types_Block \<Rightarrow> Consensus \<Rightarrow> Consensus" where
  "AddBlock b s = s\<lparr>fbftBlocks := (fbftBlocks s)(Hash b \<mapsto> b)\<rparr>"

definition MarkBlockVerified :: "types_Block \<Rightarrow> Consensus \<Rightarrow> Consensus" where
  "MarkBlockVerified b s = s\<lparr>fbftVerified := insert (Hash b) (fbftVerified s)\<rparr>"

definition GetBlockByHash :: "Consensus \<Rightarrow> bytes \<Rightarrow> types_Block option" where
  "GetBlockByHash s h = fbftBlocks s h"

text \<open>
  Modelled from the spec: the blockchain store, "readCommitSig(blockNum) -> (bytes,
  error), writeCommitSig(blockNum, bytes)". Reading fails when nothing is stored.
\<close>

definition ReadCommitSig :: "Consensus \<Rightarrow> uint64 \<Rightarrow> goerror + bytes" where
  "ReadCommitSig s n =
     (case commitSigs s n of None \<Rightarrow> Inl ''no commit signature'' | Some b \<Rightarrow> Inr b)"

definition WriteCommitSig :: "uint64 \<Rightarrow> bytes \<Rightarrow> Consensus \<Rightarrow> Consensus" where
  "WriteCommitSig n b s = s\<lparr>commitSigs := (commitSigs s)(n \<mapsto> b)\<rparr>"

text \<open>
  Modelled from the spec: \<open>ReadSignatureBitmapPayload\<close>, by the payload layout "fixed-size
  signature followed by a variable-length bitmap". It fails on a payload shorter than
  a signature; otherwise it returns the signature bytes and a pointer to a freshly
  allocated mask holding the bitmap.
\<close>

definition ReadSignatureBitmapPayload ::
  "env \<Rightarrow> bytes \<Rightarrow> nat \<Rightarrow> Consensus \<Rightarrow> goerror + (bytes \<times> nat \<times> Consensus)" where
  "ReadSignatureBitmapPayload e recvPayload offset s =
     (if offset + BLSSignatureSizeInBytes e > length recvPayload
      then Inl ''payload not have enough length''
      else Inr (take (BLSSignatureSizeInBytes e) (drop offset recvPayload),
                length (masks s),
                s\<lparr>masks := masks s
                   @ [\<lparr>Bitmap = drop (offset + BLSSignatureSizeInBytes e) recvPayload\<rparr>]\<rparr>))"

text \<open>
  Modelled from the spec: mode and phase bookkeeping ("If in ViewChanging mode, stop",
  "advance phase to Prepare", "start a finality timer").
\<close>

definition IsViewChangingMode :: "Consensus \<Rightarrow> bool" where
  "IsViewChangingMode s = (current s = ViewChanging)"

definition switchPhase :: "FBFTPhase \<Rightarrow> Consensus \<Rightarrow> Consensus" where
  "switchPhase desired s = s\<lparr>phase := desired\<rparr>"

definition StartFinalityCount :: "Consensus \<Rightarrow> Consensus" where
  "StartFinalityCount s = s\<lparr>finalityCounter := True\<rparr>"

text \<open>Modelled from the spec: a timer is active or not; \<open>Start\<close> and \<open>Stop\<close> set that.\<close>

definition timerStart :: "TimeoutType \<Rightarrow> Consensus \<Rightarrow> Consensus" where
  "timerStart t s = s\<lparr>consensusTimeout := (consensusTimeout s)(t := True)\<rparr>"

definition timerStop :: "TimeoutType \<Rightarrow> Consensus \<Rightarrow> Consensus" where
  "timerStop t s = s\<lparr>consensusTimeout := (consensusTimeout s)(t := False)\<rparr>"

subsection \<open>The functions of validator.go\<close>

text \<open>
  \<open>spinUpStateSync\<close>: a \<open>select\<close> with a send on \<open>BlockNumLowChan\<close> and a \<open>default\<close>.
  Modelled from the spec: the channel is "a single-slot signal", so the send goes
  through exactly when no signal is waiting.
\<close>

definition spinUpStateSync :: "Consensus \<Rightarrow> Consensus" where
  "spinUpStateSync s =
     (if BlockNumLowChan s < 1
      then s\<lparr>BlockNumLowChan := BlockNumLowChan s + 1,
             current := Syncing,
             consensusTimeout := (\<lambda>v. False)\<rparr>
      else s)"

definition getPriKeysInCommittee :: "env \<Rightarrow> Consensus \<Rightarrow> PrivateKeyWrapper list" where
  "getPriKeysInCommittee e s = filter (\<lambda>key. IsValidatorInCommittee e s (Pub key)) (priKey s)"

text \<open>
  \<open>constructP2pMessages\<close>; \<open>perKeyMessages\<close> is its loop over the keys, which skips a
  key on an error of \<open>construct\<close> and appends the message otherwise.
\<close>

fun perKeyMessages ::
  "env \<Rightarrow> Consensus \<Rightarrow> MessageType \<Rightarrow> bytes \<Rightarrow> PrivateKeyWrapper list \<Rightarrow> NetworkMessage list" where
  "perKeyMessages e s msgType payloadForSign [] = []"
| "perKeyMessages e s msgType payloadForSign (key # priKeys) =
     (case construct e s msgType payloadForSign [key] of
        Inl err \<Rightarrow> perKeyMessages e s msgType payloadForSign priKeys
      | Inr networkMessage \<Rightarrow> networkMessage # perKeyMessages e s msgType payloadForSign priKeys)"

definition constructP2pMessages ::
  "env \<Rightarrow> Consensus \<Rightarrow> MessageType \<Rightarrow> bytes \<Rightarrow> PrivateKeyWrapper list \<Rightarrow> NetworkMessage list" where
  "constructP2pMessages e s msgType payloadForSign priKeys =
     (if AggregateSig s
      then (case construct e s msgType payloadForSign priKeys of
              Inl err \<Rightarrow> []
            | Inr networkMessage \<Rightarrow> [networkMessage])
      else perKeyMessages e s msgType payloadForSign priKeys)"

text \<open>
  \<open>broadcastConsensusP2pMessages\<close>: the loop returns at the first error of
  \<open>SendWithoutRetry\<close>, leaving the remaining messages unsent; a message that went out
  is appended to \<open>sent\<close>.
\<close>

fun broadcastConsensusP2pMessages ::
  "env \<Rightarrow> NetworkMessage list \<Rightarrow> Consensus \<Rightarrow> goerror option \<times> Consensus" where
  "broadcastConsensusP2pMessages e [] s = (None, s)"
| "broadcastConsensusP2pMessages e (p2pMsg # rest) s =
     (if current s \<noteq> Listening
      then (case SendWithoutRetry e (ShardID s) (p2p_ConstructMessage e (Bytes p2pMsg)) of
              Some err \<Rightarrow> (Some err, s)
            | None \<Rightarrow>
                broadcastConsensusP2pMessages e rest
                  (s\<lparr>sent := sent s @ [(ShardID s, p2p_ConstructMessage e (Bytes p2pMsg))]\<rparr>))
      else broadcastConsensusP2pMessages e rest s)"

definition prepare :: "env \<Rightarrow> Consensus \<Rightarrow> Consensus" where
  "prepare e s =
     (let priKeys = getPriKeysInCommittee e s;
          p2pMsgs = constructP2pMessages e s MessageType_PREPARE [] priKeys;
          s1 = snd (broadcastConsensusP2pMessages e p2pMsgs s)
      in switchPhase FBFTPrepare s1)"

definition sendCommitMessages :: "env \<Rightarrow> types_Block \<Rightarrow> Consensus \<Rightarrow> Consensus" where
  "sendCommitMessages e blockObj s =
     (let priKeys = getPriKeysInCommittee e s;
          commitPayload = ConstructCommitPayload e (Epoch blockObj) (Hash blockObj)
                            (NumberU64 blockObj) (HeaderViewID blockObj);
          p2pMsgs = constructP2pMessages e s MessageType_COMMIT commitPayload priKeys
      in snd (broadcastConsensusP2pMessages e p2pMsgs s))"

text \<open>
  \<open>onAnnounce\<close>. When the parser returns an error the handler logs
  \<open>recvMsg.BlockNum\<close> before it returns (line 24): a nil \<open>recvMsg\<close> panics there. When
  the parser returns no error, the first read of a field of \<open>recvMsg\<close> panics on nil
  all the same. The error of \<open>broadcastConsensusP2pMessages\<close> is logged by \<open>prepare\<close>
  and dropped.
\<close>

definition onAnnounce :: "env \<Rightarrow> bytes \<Rightarrow> Consensus \<Rightarrow> outcome" where
  "onAnnounce e msg s =
     (case ParseFBFTMessage e msg of
        (None, err) \<Rightarrow> Inl NilPointerDereference
      | (Some recvMsg, Some err) \<Rightarrow> Inr (Unparseable, s)
      | (Some recvMsg, None) \<Rightarrow>
         (if \<not> onAnnounceSanityChecks e s recvMsg then Inr (SanityChecksFailed, s)
          else
           (let s1 = AddMessage recvMsg s;
                s2 = s1\<lparr>blockHash := BlockHash recvMsg\<rparr>
            in (if IsViewChangingMode s2 then Inr (StillViewChanging, s2)
                else if checkViewID e s2 recvMsg \<noteq> None then Inr (ViewIDCheckFailed, s2)
                else Inr (Completed, prepare e (StartFinalityCount s2))))))"

text \<open>
  \<open>onPrepared\<close>. The parser's \<open>(nil, nil)\<close> is a nil dereference at the first field
  read. The local \<open>blockHash\<close> is \<open>hash\<close> here.
\<close>

definition onPrepared :: "env \<Rightarrow> bytes \<Rightarrow> Consensus \<Rightarrow> outcome" where
  "onPrepared e msg s =
     (case ParseFBFTMessage e msg of
        (r, Some err) \<Rightarrow> Inr (Unparseable, s)
      | (None, None) \<Rightarrow> Inl NilPointerDereference
      | (Some recvMsg, None) \<Rightarrow>
         (if BlockNum recvMsg < blockNum s then Inr (WrongBlockNum, s)
          else
           (let s1 = (if BlockNum recvMsg > blockNum s then spinUpStateSync s else s);
                hash = BlockHash recvMsg
            in (case ReadSignatureBitmapPayload e (Payload recvMsg) 0 s1 of
                  Inl err \<Rightarrow> Inr (PayloadReadFailed, s1)
                | Inr (aggSig, mptr, s2) \<Rightarrow>
                   (if \<not> IsQuorumAchievedByMask e (masks s2 ! mptr)
                    then Inr (QuorumNotAchieved, s2)
                    else if \<not> VerifyHash e aggSig (masks s2 ! mptr) hash
                    then Inr (SignatureVerifyFailed, s2)
                    else
                     (case rlp_DecodeBytes e (Block recvMsg) of
                        Inl err \<Rightarrow> Inr (UnparseableBlock, s2)
                      | Inr blockObj \<Rightarrow>
                         (if \<not> onPreparedSanityChecks e s2 blockObj recvMsg
                          then Inr (SanityChecksFailed, s2)
                          else if current s2 \<noteq> Normal then Inr (NotNormalMode, s2)
                          else
                           (case BlockVerifier e of
                              None \<Rightarrow> Inr (NoBlockVerifier, s2)
                            | Some verify \<Rightarrow>
                               (if verify blockObj \<noteq> None
                                then Inr (BlockVerificationFailed, s2)
                                else
                                 (let s3 = AddBlock blockObj (MarkBlockVerified blockObj s2);
                                      s4 = s3\<lparr>block := Block recvMsg\<rparr>;
                                      recvMsg1 = recvMsg\<lparr>Block := []\<rparr>;
                                      s5 = AddMessage recvMsg1 s4
                                  in (if checkViewID e s5 recvMsg1 \<noteq> None
                                      then Inr (ViewIDCheckFailed, s5)
                                      else if BlockNum recvMsg1 > blockNum s5
                                      then Inr (FutureBlock, s5)
                                      else
                                       (let s6 = s5\<lparr>aggregatedPrepareSig := Some aggSig,
                                                   prepareBitmap := Some mptr\<rparr>;
                                            s7 = (if blockHash s6 = replicate 32 0
                                                  then s6\<lparr>blockHash := hash\<rparr> else s6);
                                            s8 = sendCommitMessages e blockObj s7
                                        in Inr (Completed, switchPhase FBFTCommit s8)))))))))))))"

text \<open>
  \<open>onCommitted\<close>, in three parts: the locked section up to the write of the commit
  signature (\<open>storeCommitSig\<close>, lines 277 to 293), what follows it
  (\<open>afterCommitSig\<close>, lines 295 to 313), and the handler that runs the checks and then
  both. \<open>mptr\<close> is the pointer \<open>mask\<close>: \<open>consensus.commitBitmap = mask\<close> stores the
  pointer, \<open>mask.SetMask\<close> writes the cell it points to. The slice expression
  \<open>commitSigBitmap[bls.BLSSignatureSizeInBytes:]\<close> panics on a shorter slice.
\<close>

definition storeCommitSig ::
  "env \<Rightarrow> FBFTMessage \<Rightarrow> bytes \<Rightarrow> nat \<Rightarrow> types_Block \<Rightarrow> Consensus \<Rightarrow> panic + Consensus" where
  "storeCommitSig e recvMsg aggSig mptr blockObj s =
     (let s1 = s\<lparr>aggregatedCommitSig := Some aggSig, commitBitmap := Some mptr\<rparr>
      in (case ReadCommitSig s1 (NumberU64 blockObj) of
            Inl err \<Rightarrow> Inr (WriteCommitSig (NumberU64 blockObj) (Payload recvMsg) s1)
          | Inr commitSigBitmap \<Rightarrow>
             (if length commitSigBitmap = length (Payload recvMsg)
              then
               (if length commitSigBitmap < BLSSignatureSizeInBytes e
                then Inl SliceBoundsOutOfRange
                else
                 (let new = CountEnabled (masks s1 ! mptr);
                      s2 = s1\<lparr>masks := (masks s1)
                              [mptr := SetMask (masks s1 ! mptr)
                                         (drop (BLSSignatureSizeInBytes e) commitSigBitmap)]\<rparr>;
                      cur = CountEnabled (masks s2 ! mptr)
                  in (if new > cur
                      then Inr (WriteCommitSig (NumberU64 blockObj) (Payload recvMsg) s2)
                      else Inr s2)))
              else Inr (WriteCommitSig (NumberU64 blockObj) (Payload recvMsg) s1))))"

definition afterCommitSig :: "env \<Rightarrow> FBFTMessage \<Rightarrow> Consensus \<Rightarrow> Exit \<times> Consensus" where
  "afterCommitSig e recvMsg s =
     (let s1 = tryCatchup e s
      in if BlockNum recvMsg > blockNum s1 then (OutOfSync, s1)
         else if IsViewChangingMode s1 then (StillViewChanging, s1)
         else
           let s2 = (if consensusTimeout s1 timeoutBootstrap
                     then timerStop timeoutBootstrap s1 else s1)
           in (Completed, timerStart timeoutConsensus s2))"

definition onCommitted :: "env \<Rightarrow> bytes \<Rightarrow> Consensus \<Rightarrow> outcome" where
  "onCommitted e msg s =
     (case ParseFBFTMessage e msg of
        (r, Some err) \<Rightarrow> Inr (Unparseable, s)
      | (None, None) \<Rightarrow> Inl NilPointerDereference
      | (Some recvMsg, None) \<Rightarrow>
         (if BlockNum recvMsg < blockNum s - 1 then Inr (WrongBlockNum, s)
          else
           (let s1 = (if BlockNum recvMsg > blockNum s then spinUpStateSync s else s)
            in (case ReadSignatureBitmapPayload e (Payload recvMsg) 0 s1 of
                  Inl err \<Rightarrow> Inr (PayloadReadFailed, s1)
                | Inr (aggSig, mptr, s2) \<Rightarrow>
                   (if \<not> IsQuorumAchievedByMask e (masks s2 ! mptr)
                    then Inr (QuorumNotAchieved, s2)
                    else
                     (case GetBlockByHash s2 (BlockHash recvMsg) of
                        None \<Rightarrow> Inr (NoMatchingBlock, s2)
                      | Some blockObj \<Rightarrow>
                         (let commitPayload =
                                ConstructCommitPayload e (Epoch blockObj) (Hash blockObj)
                                  (NumberU64 blockObj) (HeaderViewID blockObj)
                          in (if \<not> VerifyHash e aggSig (masks s2 ! mptr) commitPayload
                              then Inr (SignatureVerifyFailed, s2)
                              else
                               (case storeCommitSig e recvMsg aggSig mptr blockObj
                                       (AddMessage recvMsg s2) of
                                  Inl p \<Rightarrow> Inl p
                                | Inr s3 \<Rightarrow> Inr (afterCommitSig e recvMsg s3))))))))))"

subsection \<open>Vocabulary for the statements\<close>

text \<open>The return statement a handler left through, if it did not panic.\<close>

definition exitOf :: "outcome \<Rightarrow> Exit option" where
  "exitOf r = (case r of Inl p \<Rightarrow> None | Inr x \<Rightarrow> Some (fst x))"

text \<open>
  The three return statements of \<open>onCommitted\<close> that lie behind the write of the commit
  signature: a run that leaves through one of them has processed its message.
\<close>

definition processed :: "Exit \<Rightarrow> bool" where
  "processed x = (x = OutOfSync \<or> x = StillViewChanging \<or> x = Completed)"

text \<open>The participation bitmap a message carries: its payload behind the signature.\<close>

definition bitmapOf :: "env \<Rightarrow> FBFTMessage \<Rightarrow> Mask" where
  "bitmapOf e m = \<lparr>Bitmap = drop (BLSSignatureSizeInBytes e) (Payload m)\<rparr>"

text \<open>The state behind the resync trigger that both \<open>onPrepared\<close> and \<open>onCommitted\<close> run.\<close>

definition resynced :: "FBFTMessage \<Rightarrow> Consensus \<Rightarrow> Consensus" where
  "resynced m s = (if BlockNum m > blockNum s then spinUpStateSync s else s)"

text \<open>
  Which blob is on disk after the merge step, given what was there (\<open>old\<close>) and the
  payload received.
\<close>

definition keptCommitSig :: "env \<Rightarrow> bytes option \<Rightarrow> bytes \<Rightarrow> bytes" where
  "keptCommitSig e old payload =
     (case old of
        None \<Rightarrow> payload
      | Some b \<Rightarrow>
          if length b = length payload
             \<and> CountEnabled \<lparr>Bitmap = drop (BLSSignatureSizeInBytes e) payload\<rparr>
                 \<le> CountEnabled \<lparr>Bitmap = drop (BLSSignatureSizeInBytes e) b\<rparr>
          then b else payload)"

text \<open>The number of signers recorded in a persisted blob.\<close>

definition signersOf :: "env \<Rightarrow> bytes \<Rightarrow> nat" where
  "signersOf e blob = CountEnabled \<lparr>Bitmap = drop (BLSSignatureSizeInBytes e) blob\<rparr>"

text \<open>
  The state in which \<open>onCommitted\<close> takes the lock on a message that passed its checks:
  the resync trigger has run, the mask has been allocated, the message is in the log.
\<close>

definition lockedState :: "env \<Rightarrow> FBFTMessage \<Rightarrow> Consensus \<Rightarrow> Consensus" where
  "lockedState e m s = AddMessage m ((resynced m s)\<lparr>masks := masks s @ [bitmapOf e m]\<rparr>)"

text \<open>The mask object \<open>consensus.commitBitmap\<close> points to.\<close>

definition commitBitmapMask :: "Consensus \<Rightarrow> Mask option" where
  "commitBitmapMask s = map_option (\<lambda>p. masks s ! p) (commitBitmap s)"

text \<open>
  The state \<open>onAnnounce\<close> has built when it asks for the mode: the message is in the
  log and its hash is the current block hash.
\<close>

definition announced :: "FBFTMessage \<Rightarrow> Consensus \<Rightarrow> Consensus" where
  "announced m s = s\<lparr>fbftMessages := fbftMessages s @ [m], blockHash := BlockHash m\<rparr>"

text \<open>What \<open>broadcastConsensusP2pMessages\<close> hands to the transport for a message.\<close>

definition onWire :: "env \<Rightarrow> Consensus \<Rightarrow> NetworkMessage \<Rightarrow> 32 word \<times> bytes" where
  "onWire e s p2pMsg = (ShardID s, p2p_ConstructMessage e (Bytes p2pMsg))"

text \<open>The state a handler left behind, if it did not panic.\<close>

definition stateOf :: "outcome \<Rightarrow> Consensus option" where
  "stateOf r = (case r of Inl p \<Rightarrow> None | Inr x \<Rightarrow> Some (snd x))"

text \<open>
  A committed message that is valid at a node in state \<open>s\<close>, for the block \<open>b\<close>: it is
  not stale, its payload holds a signature, its bitmap reaches quorum, the log has
  the block under the message's hash, and the signature verifies against the commit
  payload of that block. These are the checks of \<open>onCommitted\<close> in front of the lock.
\<close>

definition validCommitted :: "env \<Rightarrow> Consensus \<Rightarrow> FBFTMessage \<Rightarrow> types_Block \<Rightarrow> bool" where
  "validCommitted e s m b =
     (\<not> BlockNum m < blockNum s - 1
      \<and> BLSSignatureSizeInBytes e \<le> length (Payload m)
      \<and> IsQuorumAchievedByMask e (bitmapOf e m)
      \<and> GetBlockByHash s (BlockHash m) = Some b
      \<and> VerifyHash e (take (BLSSignatureSizeInBytes e) (Payload m)) (bitmapOf e m)
           (ConstructCommitPayload e (Epoch b) (Hash b) (NumberU64 b) (HeaderViewID b)))"

text \<open>Whether the transport takes a message, and the messages of a batch that go out.\<close>

definition accepted :: "env \<Rightarrow> Consensus \<Rightarrow> NetworkMessage \<Rightarrow> bool" where
  "accepted e s p2pMsg =
     (SendWithoutRetry e (ShardID s) (p2p_ConstructMessage e (Bytes p2pMsg)) = None)"

definition transmitted :: "env \<Rightarrow> Consensus \<Rightarrow> NetworkMessage list \<Rightarrow> (32 word \<times> bytes) list" where
  "transmitted e s p2pMsgs =
     (if current s = Listening then []
      else map (onWire e s) (takeWhile (accepted e s) p2pMsgs))"

subsection \<open>A small committee to run the handlers on\<close>

text \<open>
  A raw message is its block number followed by the payload; a signature is one byte
  long; quorum is two signers; catch-up does nothing; the second of the three keys
  cannot sign.
\<close>

definition sampleBlock :: types_Block where
  "sampleBlock = \<lparr>Epoch = 0, Hash = [1], NumberU64 = 4, HeaderViewID = 0\<rparr>"

definition sampleEnv :: env where
  "sampleEnv =
     \<lparr>ParseFBFTMessage =
        (\<lambda>raw. case raw of
                 [] \<Rightarrow> (None, Some ''empty message'')
               | n # payload \<Rightarrow>
                   (Some \<lparr>ViewID = 0, BlockNum = ucast n, BlockHash = [1],
                          Payload = payload, Block = [2]\<rparr>, None)),
      onAnnounceSanityChecks = (\<lambda>s m. True),
      onPreparedSanityChecks = (\<lambda>s b m. True),
      checkViewID = (\<lambda>s m. None),
      IsQuorumAchievedByMask = (\<lambda>m. 2 \<le> CountEnabled m),
      VerifyHash = (\<lambda>sig m h. True),
      rlp_DecodeBytes = (\<lambda>bs. Inr sampleBlock),
      BlockVerifier = Some (\<lambda>b. None),
      ConstructCommitPayload = (\<lambda>ep h n v. h),
      construct =
        (\<lambda>s t p keys. case keys of
                        [] \<Rightarrow> Inl ''no key''
                      | k # ks \<Rightarrow> if Pri k = [] then Inl ''empty key''
                                  else Inr \<lparr>Phase = t, Bytes = Pri k @ p\<rparr>),
      IsValidatorInCommittee = (\<lambda>s pub. True),
      SendWithoutRetry = (\<lambda>g b. None),
      p2p_ConstructMessage = (\<lambda>b. b),
      tryCatchup = (\<lambda>s. s),
      BLSSignatureSizeInBytes = 1\<rparr>"

definition sampleState :: Consensus where
  "sampleState =
     \<lparr>blockNum = 5, blockHash = replicate 32 0, block = [], phase = FBFTAnnounce,
      current = Normal, aggregatedPrepareSig = None, prepareBitmap = None,
      aggregatedCommitSig = None, commitBitmap = None,
      priKey = [\<lparr>Pri = [1], Pub = [1]\<rparr>, \<lparr>Pri = [], Pub = [2]\<rparr>, \<lparr>Pri = [3], Pub = [3]\<rparr>],
      AggregateSig = False, ShardID = 0,
      consensusTimeout = (\<lambda>t. t = timeoutBootstrap),
      BlockNumLowChan = 0, finalityCounter = False, fbftMessages = [],
      fbftBlocks = [[1] \<mapsto> sampleBlock], fbftVerified = {}, commitSigs = Map.empty,
      sent = [], masks = []\<rparr>"

text \<open>
  \<open>sampleMsg bitmap\<close> is the committed message for block 4 whose payload is the
  signature byte 9 and a one-byte bitmap. \<open>sampleState1\<close> is the state after
  \<open>onCommitted\<close> has run on the message with bitmap 3 (two signers) from
  \<open>sampleState\<close>, \<open>sampleState2\<close> the state after it has then run on the message with
  bitmap 7 (three signers).
\<close>

definition sampleMsg :: "byte \<Rightarrow> FBFTMessage" where
  "sampleMsg bitmap =
     \<lparr>ViewID = 0, BlockNum = 4, BlockHash = [1], Payload = [9, bitmap], Block = [2]\<rparr>"

definition sampleState1 :: Consensus where
  "sampleState1 =
     sampleState
       \<lparr>aggregatedCommitSig := Some [9],
        commitBitmap := Some 0,
        consensusTimeout := (\<lambda>t. t = timeoutConsensus),
        fbftMessages := [sampleMsg 3],
        commitSigs := [4 \<mapsto> [9, 3]],
        masks := [\<lparr>Bitmap = [3]\<rparr>]\<rparr>"

definition sampleState2 :: Consensus where
  "sampleState2 =
     sampleState1
       \<lparr>commitBitmap := Some 1,
        fbftMessages := [sampleMsg 3, sampleMsg 7],
        commitSigs := [4 \<mapsto> [9, 7]],
        masks := [\<lparr>Bitmap = [3]\<rparr>, \<lparr>Bitmap = [3]\<rparr>]\<rparr>"

text \<open>\<open>sampleStatePrior\<close> is \<open>sampleState\<close> with a blob of four signers persisted for block 4.\<close>

definition sampleStatePrior :: Consensus where
  "sampleStatePrior = sampleState\<lparr>commitSigs := [4 \<mapsto> [9, 15]]\<rparr>"

section \<open>Properties\<close>

subsection \<open>Shared lemmas\<close>

lemma afterCommitSig_exitD:
  "afterCommitSig e m s = (a, b) \<Longrightarrow> processed a"
  by (auto simp add: afterCommitSig_def processed_def Let_def split: if_splits)

lemma resynced_fields [simp]:
  "masks (resynced m s) = masks s"
  "fbftBlocks (resynced m s) = fbftBlocks s"
  "commitSigs (resynced m s) = commitSigs s"
  by (simp_all add: resynced_def spinUpStateSync_def)

lemma unat_max_uint64: "unat (- 1 :: uint64) = 18446744073709551615"
  by (simp add: unsigned_minus_1_eq_mask mask_eq_exp_minus_1)

lemma bitsSet_samples: "bitsSet 1 = 1" "bitsSet 3 = 2" "bitsSet 7 = 3" "bitsSet 255 = 8"
  by (simp_all add: bitsSet_def upt_rec)

lemmas sample_defs =
  sampleEnv_def sampleState_def sampleBlock_def sampleMsg_def sampleState1_def sampleState2_def

lemmas handler_defs =
  ReadSignatureBitmapPayload_def CountEnabled_def SetMask_def GetBlockByHash_def
  AddMessage_def AddBlock_def MarkBlockVerified_def ReadCommitSig_def WriteCommitSig_def
  IsViewChangingMode_def switchPhase_def StartFinalityCount_def timerStart_def timerStop_def
  spinUpStateSync_def getPriKeysInCommittee_def constructP2pMessages_def prepare_def
  sendCommitMessages_def storeCommitSig_def afterCommitSig_def Let_def

subsection \<open>\<open>onCommitted\<close>: which commit signature is persisted\<close>

text \<open>What a run that got as far as the write of the commit signature went through.\<close>

lemma onCommitted_processedD:
  assumes parse: "ParseFBFTMessage e msg = (Some m, None)"
      and run: "onCommitted e msg s = Inr (x, s')"
      and px: "processed x"
  shows "\<exists>b s3. BLSSignatureSizeInBytes e \<le> length (Payload m)
           \<and> GetBlockByHash s (BlockHash m) = Some b
           \<and> storeCommitSig e m (take (BLSSignatureSizeInBytes e) (Payload m)) (length (masks s)) b
                (AddMessage m ((resynced m s)\<lparr>masks := masks s @ [bitmapOf e m]\<rparr>)) = Inr s3
           \<and> afterCommitSig e m s3 = (x, s')"
  using assms
  by (cases "blockNum s < BlockNum m")
     (auto simp add: onCommitted_def processed_def Let_def split_beta ReadSignatureBitmapPayload_def
        GetBlockByHash_def bitmapOf_def resynced_def spinUpStateSync_def
        split: sum.splits option.splits if_splits)

lemma storeCommitSig_commitSigs:
  assumes "storeCommitSig e m sig p b s = Inr s3"
      and "p < length (masks s)"
      and "masks s ! p = bitmapOf e m"
  shows "commitSigs s3 =
           (commitSigs s)(NumberU64 b \<mapsto> keptCommitSig e (commitSigs s (NumberU64 b)) (Payload m))"
  using assms
  by (auto simp add: storeCommitSig_def ReadCommitSig_def WriteCommitSig_def keptCommitSig_def
        Let_def SetMask_def bitmapOf_def
        split: option.splits if_splits)

lemma afterCommitSig_commitSigs:
  assumes "commitSigs (tryCatchup e s) n = commitSigs s n"
  shows "commitSigs (snd (afterCommitSig e m s)) n = commitSigs s n"
  using assms by (simp add: afterCommitSig_def Let_def timerStart_def timerStop_def)

lemma onCommitted_commitSigs:
  assumes parse: "ParseFBFTMessage e msg = (Some m, None)"
      and run: "onCommitted e msg s = Inr (x, s')"
      and px: "processed x"
      and blk: "GetBlockByHash s (BlockHash m) = Some b"
      and frame: "\<And>s. commitSigs (tryCatchup e s) (NumberU64 b) = commitSigs s (NumberU64 b)"
  shows "commitSigs s' (NumberU64 b) =
           Some (keptCommitSig e (commitSigs s (NumberU64 b)) (Payload m))"
proof -
  from onCommitted_processedD [OF parse run px] blk obtain s3 where
    st: "storeCommitSig e m (take (BLSSignatureSizeInBytes e) (Payload m)) (length (masks s)) b
           (AddMessage m ((resynced m s)\<lparr>masks := masks s @ [bitmapOf e m]\<rparr>)) = Inr s3"
    and af: "afterCommitSig e m s3 = (x, s')"
    by auto
  have "commitSigs s3 (NumberU64 b) =
          Some (keptCommitSig e (commitSigs s (NumberU64 b)) (Payload m))"
    using storeCommitSig_commitSigs [OF st] by (simp add: AddMessage_def)
  moreover have "commitSigs s' (NumberU64 b) = commitSigs s3 (NumberU64 b)"
    using afterCommitSig_commitSigs [of e s3 "NumberU64 b" m, OF frame] af by simp
  ultimately show ?thesis by simp
qed


lemma timers_after_commit:
  "(\<lambda>t. t = timeoutBootstrap)(timeoutBootstrap := False, timeoutConsensus := True)
     = (\<lambda>t. t = timeoutConsensus)"
  by (auto simp add: fun_eq_iff)

lemma timers_restart:
  "(\<lambda>t. t = timeoutConsensus)(timeoutConsensus := True) = (\<lambda>t. t = timeoutConsensus)"
  by (auto simp add: fun_eq_iff)

lemma sample_parse: "ParseFBFTMessage sampleEnv [4, 9, b] = (Some (sampleMsg b), None)"
  by (simp add: sampleEnv_def sampleMsg_def)

lemma sample_run1: "onCommitted sampleEnv [4, 9, 3] sampleState = Inr (Completed, sampleState1)"
  by (simp add: onCommitted_def sample_defs handler_defs bitsSet_samples timers_after_commit)

lemma sample_run2: "onCommitted sampleEnv [4, 9, 7] sampleState1 = Inr (Completed, sampleState2)"
  by (simp add: onCommitted_def sample_defs handler_defs bitsSet_samples timers_restart)

text \<open>A valid committed message is processed: the handler writes and goes on to catch-up.\<close>

lemma spinUpStateSync_log:
  "masks (spinUpStateSync s) = masks s" "fbftBlocks (spinUpStateSync s) = fbftBlocks s"
  by (simp_all add: spinUpStateSync_def)

lemma storeCommitSig_returns:
  assumes "BLSSignatureSizeInBytes e \<le> length (Payload m)"
  shows "\<exists>s3. storeCommitSig e m sig p b s = Inr s3"
  using assms
  by (auto simp add: storeCommitSig_def Let_def ReadCommitSig_def split: option.splits)

lemma onCommitted_validD:
  assumes parse: "ParseFBFTMessage e msg = (Some m, None)"
      and valid: "validCommitted e s m b"
  shows "\<exists>x s' s3. onCommitted e msg s = Inr (x, s') \<and> processed x
           \<and> storeCommitSig e m (take (BLSSignatureSizeInBytes e) (Payload m)) (length (masks s)) b
                (lockedState e m s) = Inr s3
           \<and> afterCommitSig e m s3 = (x, s')"
proof -
  let ?sig = "take (BLSSignatureSizeInBytes e) (Payload m)"
  from valid have long: "BLSSignatureSizeInBytes e \<le> length (Payload m)"
    by (simp add: validCommitted_def)
  from storeCommitSig_returns [OF long] obtain s3 where
    st: "storeCommitSig e m ?sig (length (masks s)) b (lockedState e m s) = Inr s3"
    by blast
  obtain x s' where af: "afterCommitSig e m s3 = (x, s')"
    by (cases "afterCommitSig e m s3")
  have run: "onCommitted e msg s = Inr (x, s')"
    using parse valid st af
    by (cases "blockNum s < BlockNum m")
       (simp_all add: onCommitted_def validCommitted_def Let_def ReadSignatureBitmapPayload_def
          GetBlockByHash_def bitmapOf_def lockedState_def resynced_def spinUpStateSync_log)
  show ?thesis
    using run st af afterCommitSig_exitD [OF af] by blast
qed

lemma sample_valid:
  assumes "blockNum s = 5" "fbftBlocks s [1] = Some sampleBlock" "2 \<le> bitsSet bitmap"
  shows "validCommitted sampleEnv s (sampleMsg bitmap) sampleBlock"
  using assms
  by (simp add: validCommitted_def sampleEnv_def sampleMsg_def GetBlockByHash_def bitmapOf_def
        CountEnabled_def)

lemma keptCommitSig_max:
  assumes "length a = length p"
  shows "signersOf e (keptCommitSig e (Some a) p) = max (signersOf e a) (signersOf e p)"
    and "keptCommitSig e (Some a) p = a \<or> keptCommitSig e (Some a) p = p"
    and "length (keptCommitSig e (Some a) p) = length p"
  using assms by (auto simp add: keptCommitSig_def signersOf_def)

text \<open>
  C1, as the code has it. Two committed messages for the same block with bitmaps of
  the same byte length, the first valid at the node and catch-up leaving the
  block's persisted signature alone. \<open>onCommitted\<close> processes the first; if the
  second is valid in the state this leaves, \<open>onCommitted\<close> processes it too. If no blob
  of the payloads' length was persisted for the block before, the first payload is
  on disk after the first run, and after the second run the payload on disk is the
  second one if its bitmap enables strictly more signers and the first one
  otherwise: whichever of the two arrives first, the payload with the strictly larger
  count is on disk in the end. If a blob of that length was persisted before, the
  blob on disk in the end is that blob or one of the two payloads, with the largest
  signer count of the three. The number of signers on disk after the second run is
  never below the number after the first.
\<close>

theorem commit_sig_persistence_monotonic:
  assumes parse1: "ParseFBFTMessage e msg1 = (Some m1, None)"
      and parse2: "ParseFBFTMessage e msg2 = (Some m2, None)"
      and valid1: "validCommitted e s0 m1 b"
      and len: "length (Bitmap (bitmapOf e m1)) = length (Bitmap (bitmapOf e m2))"
      and frame: "\<And>s. commitSigs (tryCatchup e s) (NumberU64 b) = commitSigs s (NumberU64 b)"
  shows "\<exists>x1 s1 d1. onCommitted e msg1 s0 = Inr (x1, s1) \<and> processed x1
           \<and> commitSigs s1 (NumberU64 b) = Some d1
           \<and> d1 = keptCommitSig e (commitSigs s0 (NumberU64 b)) (Payload m1)
           \<and> (validCommitted e s1 m2 b \<longrightarrow>
                (\<exists>x2 s2 d2. onCommitted e msg2 s1 = Inr (x2, s2) \<and> processed x2
                   \<and> commitSigs s2 (NumberU64 b) = Some d2
                   \<and> d2 = keptCommitSig e (Some d1) (Payload m2)
                   \<and> signersOf e d1 \<le> signersOf e d2
                   \<and> ((case commitSigs s0 (NumberU64 b) of
                          None \<Rightarrow> True | Some d0 \<Rightarrow> length d0 \<noteq> length (Payload m1)) \<longrightarrow>
                        d1 = Payload m1
                        \<and> d2 = (if CountEnabled (bitmapOf e m1) < CountEnabled (bitmapOf e m2)
                                then Payload m2 else Payload m1))
                   \<and> (\<forall>d0. commitSigs s0 (NumberU64 b) = Some d0
                              \<and> length d0 = length (Payload m1) \<longrightarrow>
                        signersOf e d0 \<le> signersOf e d1
                        \<and> (d2 = d0 \<or> d2 = Payload m1 \<or> d2 = Payload m2)
                        \<and> signersOf e d2 =
                            max (signersOf e d0)
                              (max (signersOf e (Payload m1)) (signersOf e (Payload m2))))))"
proof -
  let ?n = "NumberU64 b"
  let ?d1 = "keptCommitSig e (commitSigs s0 ?n) (Payload m1)"
  let ?d2 = "keptCommitSig e (Some ?d1) (Payload m2)"
  from onCommitted_validD [OF parse1 valid1] obtain x1 s1 where
    run1: "onCommitted e msg1 s0 = Inr (x1, s1)" and px1: "processed x1"
    by blast
  have blk1: "GetBlockByHash s0 (BlockHash m1) = Some b"
    and l1: "BLSSignatureSizeInBytes e \<le> length (Payload m1)"
    using valid1 by (simp_all add: validCommitted_def)
  have c1: "commitSigs s1 ?n = Some ?d1"
    using onCommitted_commitSigs [OF parse1 run1 px1 blk1 frame] .
  have second: "\<exists>x2 s2 d2. onCommitted e msg2 s1 = Inr (x2, s2) \<and> processed x2
                   \<and> commitSigs s2 ?n = Some d2
                   \<and> d2 = ?d2
                   \<and> signersOf e ?d1 \<le> signersOf e d2
                   \<and> ((case commitSigs s0 ?n of
                          None \<Rightarrow> True | Some d0 \<Rightarrow> length d0 \<noteq> length (Payload m1)) \<longrightarrow>
                        ?d1 = Payload m1
                        \<and> d2 = (if CountEnabled (bitmapOf e m1) < CountEnabled (bitmapOf e m2)
                                then Payload m2 else Payload m1))
                   \<and> (\<forall>d0. commitSigs s0 ?n = Some d0 \<and> length d0 = length (Payload m1) \<longrightarrow>
                        signersOf e d0 \<le> signersOf e ?d1
                        \<and> (d2 = d0 \<or> d2 = Payload m1 \<or> d2 = Payload m2)
                        \<and> signersOf e d2 =
                            max (signersOf e d0)
                              (max (signersOf e (Payload m1)) (signersOf e (Payload m2))))"
    if valid2: "validCommitted e s1 m2 b"
  proof -
    from onCommitted_validD [OF parse2 valid2] obtain x2 s2 where
      run2: "onCommitted e msg2 s1 = Inr (x2, s2)" and px2: "processed x2"
      by blast
    have blk2: "GetBlockByHash s1 (BlockHash m2) = Some b"
      and l2: "BLSSignatureSizeInBytes e \<le> length (Payload m2)"
      using valid2 by (simp_all add: validCommitted_def)
    have leq: "length (Payload m1) = length (Payload m2)"
      using len l1 l2 by (simp add: bitmapOf_def)
    have c2: "commitSigs s2 ?n = Some ?d2"
      using onCommitted_commitSigs [OF parse2 run2 px2 blk2 frame] c1 by simp
    have ld1: "length ?d1 = length (Payload m2)"
      using leq by (simp add: keptCommitSig_def split: option.splits)
    have grow: "signersOf e ?d1 \<le> signersOf e ?d2"
      using keptCommitSig_max(1) [OF ld1, of e] by simp
    have nosame: "?d1 = Payload m1
        \<and> ?d2 = (if CountEnabled (bitmapOf e m1) < CountEnabled (bitmapOf e m2)
                 then Payload m2 else Payload m1)"
      if "case commitSigs s0 ?n of None \<Rightarrow> True | Some d0 \<Rightarrow> length d0 \<noteq> length (Payload m1)"
      using that leq by (auto simp add: keptCommitSig_def bitmapOf_def split: option.splits)
    have same: "signersOf e d0 \<le> signersOf e ?d1
        \<and> (?d2 = d0 \<or> ?d2 = Payload m1 \<or> ?d2 = Payload m2)
        \<and> signersOf e ?d2 =
            max (signersOf e d0) (max (signersOf e (Payload m1)) (signersOf e (Payload m2)))"
      if "commitSigs s0 ?n = Some d0 \<and> length d0 = length (Payload m1)" for d0
    proof -
      from that have d0: "commitSigs s0 ?n = Some d0" and l0: "length d0 = length (Payload m1)"
        by simp_all
      note a = keptCommitSig_max [OF l0, of e]
      have l01: "length (keptCommitSig e (Some d0) (Payload m1)) = length (Payload m2)"
        using a(3) leq by simp
      note b = keptCommitSig_max [OF l01, of e]
      show ?thesis
        unfolding d0 using a(1,2) b(1,2) by auto
    qed
    show ?thesis
      using run2 px2 c2 grow nosame same by blast
  qed
  show ?thesis
    using run1 px1 c1 second by blast
qed

lemma sample_run_7_first:
  "onCommitted sampleEnv [4, 9, 7] sampleState =
     Inr (Completed,
          sampleState1\<lparr>fbftMessages := [sampleMsg 7], commitSigs := [4 \<mapsto> [9, 7]],
                        masks := [\<lparr>Bitmap = [7]\<rparr>]\<rparr>)"
  by (simp add: onCommitted_def sample_defs handler_defs bitsSet_samples timers_after_commit)

theorem commit_sig_persistence_monotonic_witness:
  "commitSigs sampleState 4 = None
   \<and> signersOf sampleEnv [9, 3] = 2 \<and> signersOf sampleEnv [9, 7] = 3
   \<and> commitSigs (the (stateOf (onCommitted sampleEnv [4, 9, 7]
        (the (stateOf (onCommitted sampleEnv [4, 9, 3] sampleState)))))) 4 = Some [9, 7]
   \<and> commitSigs (the (stateOf (onCommitted sampleEnv [4, 9, 3]
        (the (stateOf (onCommitted sampleEnv [4, 9, 7] sampleState)))))) 4 = Some [9, 7]"
proof -
  let ?s7 = "sampleState1\<lparr>fbftMessages := [sampleMsg 7], commitSigs := [4 \<mapsto> [9, 7]],
                          masks := [\<lparr>Bitmap = [7]\<rparr>]\<rparr>"
  have valid3: "validCommitted sampleEnv sampleState (sampleMsg 3) sampleBlock"
    and valid7: "validCommitted sampleEnv sampleState (sampleMsg 7) sampleBlock"
    and valid37: "validCommitted sampleEnv sampleState1 (sampleMsg 7) sampleBlock"
    and valid73: "validCommitted sampleEnv ?s7 (sampleMsg 3) sampleBlock"
    by (rule sample_valid, simp_all add: sampleState1_def sampleState_def bitsSet_samples)+
  have len: "\<And>a c. length (Bitmap (bitmapOf sampleEnv (sampleMsg a)))
               = length (Bitmap (bitmapOf sampleEnv (sampleMsg c)))"
    by (simp add: bitmapOf_def sample_defs)
  have fresh: "commitSigs sampleState (NumberU64 sampleBlock) = None"
    by (simp add: sample_defs)
  have frame: "\<And>s. commitSigs (tryCatchup sampleEnv s) (NumberU64 sampleBlock)
                     = commitSigs s (NumberU64 sampleBlock)"
    by (simp add: sample_defs)
  have counts: "signersOf sampleEnv [9, 3] = 2" "signersOf sampleEnv [9, 7] = 3"
    "CountEnabled (bitmapOf sampleEnv (sampleMsg 3)) = 2"
    "CountEnabled (bitmapOf sampleEnv (sampleMsg 7)) = 3"
    by (simp_all add: signersOf_def bitmapOf_def sampleMsg_def sampleEnv_def CountEnabled_def
          bitsSet_samples)
  have pl: "\<And>a. Payload (sampleMsg a) = [9, a]"
    by (simp add: sampleMsg_def)
  from commit_sig_persistence_monotonic [OF sample_parse sample_parse valid3 len frame, of 7]
       sample_run1 valid37 fresh
  have forward: "commitSigs (the (stateOf (onCommitted sampleEnv [4, 9, 7] sampleState1)))
                   (NumberU64 sampleBlock) = Some [9, 7]"
    by (auto simp add: stateOf_def counts pl)
  from commit_sig_persistence_monotonic [OF sample_parse sample_parse valid7 len frame, of 3]
       sample_run_7_first valid73 fresh
  have backward: "commitSigs (the (stateOf (onCommitted sampleEnv [4, 9, 3] ?s7)))
                   (NumberU64 sampleBlock) = Some [9, 7]"
    by (auto simp add: stateOf_def counts pl)
  show ?thesis
    using forward backward fresh counts(1,2)
    by (simp add: sample_run1 sample_run_7_first stateOf_def sampleBlock_def)
qed

lemma bitsSet_15: "bitsSet 15 = 4"
  by (simp add: bitsSet_def upt_rec)

lemma sample_run_prior1:
  "onCommitted sampleEnv [4, 9, 3] sampleStatePrior =
     Inr (Completed,
          sampleState1\<lparr>commitSigs := [4 \<mapsto> [9, 15]], masks := [\<lparr>Bitmap = [15]\<rparr>]\<rparr>)"
  by (simp add: onCommitted_def sample_defs sampleStatePrior_def handler_defs bitsSet_samples
        bitsSet_15 timers_after_commit)

lemma sample_run_prior2:
  "onCommitted sampleEnv [4, 9, 7]
     (sampleState1\<lparr>commitSigs := [4 \<mapsto> [9, 15]], masks := [\<lparr>Bitmap = [15]\<rparr>]\<rparr>) =
     Inr (Completed,
          sampleState1\<lparr>commitBitmap := Some 1, fbftMessages := [sampleMsg 3, sampleMsg 7],
                        commitSigs := [4 \<mapsto> [9, 15]],
                        masks := [\<lparr>Bitmap = [15]\<rparr>, \<lparr>Bitmap = [15]\<rparr>]\<rparr>)"
  by (simp add: onCommitted_def sample_defs handler_defs bitsSet_samples bitsSet_15 timers_restart)

text \<open>
  C1 as stated fails: with a blob of four signers and the same length already
  persisted for block 4, the valid committed messages with two and with three
  signers are both processed, and the blob on disk in the end is the old one, not the
  payload of the pair with the larger count.
\<close>

theorem commit_sig_prior_record_kept:
  "commitSigs sampleStatePrior 4 = Some [9, 15]
   \<and> validCommitted sampleEnv sampleStatePrior (sampleMsg 3) sampleBlock
   \<and> validCommitted sampleEnv (the (stateOf (onCommitted sampleEnv [4, 9, 3] sampleStatePrior)))
        (sampleMsg 7) sampleBlock
   \<and> length (Bitmap (bitmapOf sampleEnv (sampleMsg 3)))
       = length (Bitmap (bitmapOf sampleEnv (sampleMsg 7)))
   \<and> CountEnabled (bitmapOf sampleEnv (sampleMsg 3)) < CountEnabled (bitmapOf sampleEnv (sampleMsg 7))
   \<and> exitOf (onCommitted sampleEnv [4, 9, 3] sampleStatePrior) = Some Completed
   \<and> exitOf (onCommitted sampleEnv [4, 9, 7]
        (the (stateOf (onCommitted sampleEnv [4, 9, 3] sampleStatePrior)))) = Some Completed
   \<and> commitSigs (the (stateOf (onCommitted sampleEnv [4, 9, 7]
        (the (stateOf (onCommitted sampleEnv [4, 9, 3] sampleStatePrior)))))) 4 = Some [9, 15]
   \<and> Payload (sampleMsg 7) = [9, 7]"
proof -
  have v1: "validCommitted sampleEnv sampleStatePrior (sampleMsg 3) sampleBlock"
    and v2: "validCommitted sampleEnv
               (sampleState1\<lparr>commitSigs := [4 \<mapsto> [9, 15]], masks := [\<lparr>Bitmap = [15]\<rparr>]\<rparr>)
               (sampleMsg 7) sampleBlock"
    by (rule sample_valid,
        simp_all add: sampleStatePrior_def sampleState1_def sampleState_def bitsSet_samples)+
  have counts: "CountEnabled (bitmapOf sampleEnv (sampleMsg 3)) = 2"
    "CountEnabled (bitmapOf sampleEnv (sampleMsg 7)) = 3"
    by (simp_all add: bitmapOf_def sampleMsg_def sampleEnv_def CountEnabled_def bitsSet_samples)
  show ?thesis
    using v1 v2 counts
    by (simp add: sample_run_prior1 sample_run_prior2 stateOf_def exitOf_def)
       (simp add: sampleStatePrior_def sampleState_def bitmapOf_def sampleMsg_def)
qed

subsection \<open>\<open>onCommitted\<close>: the block-number gate\<close>



lemma sample_parse_any:
  "ParseFBFTMessage sampleEnv (n # payload) =
     (Some \<lparr>ViewID = 0, BlockNum = ucast n, BlockHash = [1], Payload = payload, Block = [2]\<rparr>, None)"
  by (simp add: sampleEnv_def)


text \<open>
  C9. The gate subtracts in \<open>uint64\<close>: when the node's block number is 0 the bound
  \<open>consensus.blockNum - 1\<close> is \<open>2^64 - 1\<close>, and every parsed committed message whose
  block number is below \<open>2^64 - 1\<close> leaves through the stale return, the state untouched.
\<close>

theorem onCommitted_gate_wraps_at_zero:
  assumes parse: "ParseFBFTMessage e msg = (Some recvMsg, None)"
      and zero: "blockNum s = 0"
      and below: "unat (BlockNum recvMsg) < 2 ^ 64 - 1"
  shows "unat (blockNum s - 1) = 2 ^ 64 - 1 \<and> onCommitted e msg s = Inr (WrongBlockNum, s)"
proof -
  have bound: "unat (blockNum s - 1) = 2 ^ 64 - 1"
    using zero by (simp add: unat_max_uint64)
  have "BlockNum recvMsg < blockNum s - 1"
    using below bound by (simp add: word_less_nat_alt)
  then show ?thesis
    using parse bound by (simp add: onCommitted_def)
qed

theorem onCommitted_gate_wraps_at_zero_witness:
  "unat (blockNum (sampleState\<lparr>blockNum := 0\<rparr>) - 1) = 2 ^ 64 - 1
   \<and> onCommitted sampleEnv [0, 9, 3] (sampleState\<lparr>blockNum := 0\<rparr>)
       = Inr (WrongBlockNum, sampleState\<lparr>blockNum := 0\<rparr>)
   \<and> onCommitted sampleEnv [200, 9, 3] (sampleState\<lparr>blockNum := 0\<rparr>)
       = Inr (WrongBlockNum, sampleState\<lparr>blockNum := 0\<rparr>)"
  using onCommitted_gate_wraps_at_zero [OF sample_parse_any, of "sampleState\<lparr>blockNum := 0\<rparr>" 0 "[9, 3]"]
        onCommitted_gate_wraps_at_zero [OF sample_parse_any, of "sampleState\<lparr>blockNum := 0\<rparr>" 200 "[9, 3]"]
  by simp

subsection \<open>\<open>onCommitted\<close>: length mismatch, and the mask behind \<open>commitBitmap\<close>\<close>

lemma lockedState_fields [simp]:
  "commitSigs (lockedState e m s) = commitSigs s"
  "masks (lockedState e m s) = masks s @ [bitmapOf e m]"
  by (simp_all add: lockedState_def AddMessage_def)

lemma storeCommitSig_mismatch:
  assumes "storeCommitSig e m sig p b s = Inr s3"
      and "case ReadCommitSig s (NumberU64 b) of
             Inl err \<Rightarrow> True | Inr old \<Rightarrow> length old \<noteq> length (Payload m)"
  shows "s3 = WriteCommitSig (NumberU64 b) (Payload m)
                (s\<lparr>aggregatedCommitSig := Some sig, commitBitmap := Some p\<rparr>)"
  using assms
  by (auto simp add: storeCommitSig_def ReadCommitSig_def Let_def split: option.splits if_splits)

lemma afterCommitSig_snd_fields:
  "commitSigs (snd (afterCommitSig e m s)) = commitSigs (tryCatchup e s)"
  "masks (snd (afterCommitSig e m s)) = masks (tryCatchup e s)"
  "commitBitmap (snd (afterCommitSig e m s)) = commitBitmap (tryCatchup e s)"
  by (simp_all add: afterCommitSig_def Let_def timerStart_def timerStop_def)

text \<open>
  C10. A valid committed message, arriving while \<open>ReadCommitSig\<close> fails or returns
  a blob whose length differs from the received payload's, is processed by
  \<open>onCommitted\<close>, and the handler writes the received payload: the state it hands to
  catch-up is the locked state with the signature and the bitmap pointer stored and
  \<open>WriteCommitSig\<close> applied to the payload, whatever the old blob's signer count was.
  The payload is still stored at the end if catch-up leaves that record alone.
\<close>

theorem onCommitted_length_mismatch_overwrites:
  assumes parse: "ParseFBFTMessage e msg = (Some m, None)"
      and valid: "validCommitted e s m b"
      and mismatch: "case ReadCommitSig s (NumberU64 b) of
                       Inl err \<Rightarrow> True | Inr old \<Rightarrow> length old \<noteq> length (Payload m)"
  shows "\<exists>x s' s3. onCommitted e msg s = Inr (x, s') \<and> processed x
             \<and> afterCommitSig e m s3 = (x, s')
             \<and> s3 = WriteCommitSig (NumberU64 b) (Payload m)
                      ((lockedState e m s)
                         \<lparr>aggregatedCommitSig := Some (take (BLSSignatureSizeInBytes e) (Payload m)),
                          commitBitmap := Some (length (masks s))\<rparr>)
             \<and> ReadCommitSig s3 (NumberU64 b) = Inr (Payload m)
             \<and> (commitSigs (tryCatchup e s3) (NumberU64 b) = commitSigs s3 (NumberU64 b)
                  \<longrightarrow> ReadCommitSig s' (NumberU64 b) = Inr (Payload m))"
proof -
  from onCommitted_validD [OF parse valid] obtain x s' s3 where
    run: "onCommitted e msg s = Inr (x, s')" and px: "processed x"
    and st: "storeCommitSig e m (take (BLSSignatureSizeInBytes e) (Payload m)) (length (masks s)) b
           (lockedState e m s) = Inr s3"
    and af: "afterCommitSig e m s3 = (x, s')"
    by blast
  have mm: "case ReadCommitSig (lockedState e m s) (NumberU64 b) of
              Inl err \<Rightarrow> True | Inr old \<Rightarrow> length old \<noteq> length (Payload m)"
    using mismatch by (simp add: ReadCommitSig_def)
  note eq = storeCommitSig_mismatch [OF st mm]
  have written: "ReadCommitSig s3 (NumberU64 b) = Inr (Payload m)"
    using eq by (simp add: ReadCommitSig_def WriteCommitSig_def)
  have "commitSigs s' = commitSigs (tryCatchup e s3)"
    using afterCommitSig_snd_fields(1) [of e m s3] af by simp
  then have kept: "ReadCommitSig s' (NumberU64 b) = Inr (Payload m)"
    if "commitSigs (tryCatchup e s3) (NumberU64 b) = commitSigs s3 (NumberU64 b)"
    using that written by (simp add: ReadCommitSig_def)
  show ?thesis
    using run px af eq written kept by blast
qed

theorem onCommitted_length_mismatch_overwrites_witness:
  "signersOf sampleEnv [9, 255, 255] = 16 \<and> signersOf sampleEnv [9, 3] = 2
   \<and> ReadCommitSig (sampleState\<lparr>commitSigs := [4 \<mapsto> [9, 255, 255]]\<rparr>) 4 = Inr [9, 255, 255]
   \<and> map_option (\<lambda>s. ReadCommitSig s 4)
        (stateOf (onCommitted sampleEnv [4, 9, 3] (sampleState\<lparr>commitSigs := [4 \<mapsto> [9, 255, 255]]\<rparr>)))
      = Some (Inr [9, 3])"
proof -
  let ?s = "sampleState\<lparr>commitSigs := [4 \<mapsto> [9, 255, 255]]\<rparr>"
  have valid: "validCommitted sampleEnv ?s (sampleMsg 3) sampleBlock"
    by (rule sample_valid) (simp_all add: sampleState_def bitsSet_samples)
  have mismatch:
    "case ReadCommitSig ?s (NumberU64 sampleBlock) of
       Inl err \<Rightarrow> True | Inr old \<Rightarrow> length old \<noteq> length (Payload (sampleMsg 3))"
    by (simp add: sample_defs ReadCommitSig_def)
  have frame: "\<And>s. tryCatchup sampleEnv s = s"
    by (simp add: sampleEnv_def)
  from onCommitted_length_mismatch_overwrites [OF sample_parse valid mismatch]
  obtain x s' where "onCommitted sampleEnv [4, 9, 3] ?s = Inr (x, s')"
    and "ReadCommitSig s' (NumberU64 sampleBlock) = Inr (Payload (sampleMsg 3))"
    by (auto simp add: frame)
  then have "map_option (\<lambda>s. ReadCommitSig s 4) (stateOf (onCommitted sampleEnv [4, 9, 3] ?s))
      = Some (Inr [9, 3])"
    by (simp add: stateOf_def sampleBlock_def sampleMsg_def)
  then show ?thesis
    by (simp add: signersOf_def sampleEnv_def CountEnabled_def bitsSet_samples ReadCommitSig_def
          sampleState_def)
qed

lemma Mask_overwrite: "(m :: Mask)\<lparr>Bitmap := bs\<rparr> = \<lparr>Bitmap = bs\<rparr>"
  by (cases m) simp

lemma storeCommitSig_alias:
  assumes st: "storeCommitSig e m sig p b s = Inr s3"
      and old: "ReadCommitSig s (NumberU64 b) = Inr old"
      and len: "length old = length (Payload m)"
      and ptr: "p < length (masks s)"
  shows "commitBitmap s3 = Some p
       \<and> masks s3 = (masks s)[p := \<lparr>Bitmap = drop (BLSSignatureSizeInBytes e) old\<rparr>]"
  using assms
  by (auto simp add: storeCommitSig_def ReadCommitSig_def WriteCommitSig_def SetMask_def Let_def
        Mask_overwrite split: option.splits if_splits)

text \<open>
  C8. In \<open>onCommitted\<close> the pointer stored in \<open>consensus.commitBitmap\<close> is the pointer
  \<open>mask\<close> that \<open>SetMask\<close> is then called on. So whenever a valid committed message
  arrives while a commit signature of the payload's length is persisted for the
  block, the handler processes it, and the mask that \<open>commitBitmap\<close> points to, which
  held the received bitmap when the pointer was stored, holds the bitmap of the
  persisted blob when the handler goes on to catch-up, whichever payload ends up
  persisted; the same holds at the end if catch-up leaves the pointer and the masks
  alone.
\<close>

theorem onCommitted_commitBitmap_aliased:
  assumes parse: "ParseFBFTMessage e msg = (Some m, None)"
      and valid: "validCommitted e s m b"
      and old: "ReadCommitSig s (NumberU64 b) = Inr old"
      and len: "length old = length (Payload m)"
  shows "\<exists>x s' s3. onCommitted e msg s = Inr (x, s') \<and> processed x
             \<and> storeCommitSig e m (take (BLSSignatureSizeInBytes e) (Payload m)) (length (masks s)) b
                 (lockedState e m s) = Inr s3
             \<and> afterCommitSig e m s3 = (x, s')
             \<and> commitBitmap s3 = Some (length (masks s))
             \<and> commitBitmapMask (lockedState e m s\<lparr>commitBitmap := Some (length (masks s))\<rparr>)
                 = Some (bitmapOf e m)
             \<and> commitBitmapMask s3 = Some \<lparr>Bitmap = drop (BLSSignatureSizeInBytes e) old\<rparr>
             \<and> (masks (tryCatchup e s3) = masks s3
                  \<and> commitBitmap (tryCatchup e s3) = commitBitmap s3
                  \<longrightarrow> commitBitmapMask s'
                       = Some \<lparr>Bitmap = drop (BLSSignatureSizeInBytes e) old\<rparr>)"
proof -
  from onCommitted_validD [OF parse valid] obtain x s' s3 where
    run: "onCommitted e msg s = Inr (x, s')" and px: "processed x"
    and st: "storeCommitSig e m (take (BLSSignatureSizeInBytes e) (Payload m)) (length (masks s)) b
           (lockedState e m s) = Inr s3"
    and af: "afterCommitSig e m s3 = (x, s')"
    by blast
  have old': "ReadCommitSig (lockedState e m s) (NumberU64 b) = Inr old"
    using old by (simp add: ReadCommitSig_def)
  have ptr: "length (masks s) < length (masks (lockedState e m s))"
    by simp
  from storeCommitSig_alias [OF st old' len ptr]
  have cb: "commitBitmap s3 = Some (length (masks s))"
    and ms: "masks s3 = (masks s @ [bitmapOf e m])
                          [length (masks s) := \<lparr>Bitmap = drop (BLSSignatureSizeInBytes e) old\<rparr>]"
    by simp_all
  have before: "commitBitmapMask (lockedState e m s\<lparr>commitBitmap := Some (length (masks s))\<rparr>)
                  = Some (bitmapOf e m)"
    by (simp add: commitBitmapMask_def)
  have now: "commitBitmapMask s3 = Some \<lparr>Bitmap = drop (BLSSignatureSizeInBytes e) old\<rparr>"
    using cb ms by (simp add: commitBitmapMask_def)
  have "masks s' = masks (tryCatchup e s3)" "commitBitmap s' = commitBitmap (tryCatchup e s3)"
    using afterCommitSig_snd_fields(2,3) [of e m s3] af by simp_all
  then have later: "commitBitmapMask s' = Some \<lparr>Bitmap = drop (BLSSignatureSizeInBytes e) old\<rparr>"
    if "masks (tryCatchup e s3) = masks s3 \<and> commitBitmap (tryCatchup e s3) = commitBitmap s3"
    using that now by (simp add: commitBitmapMask_def)
  show ?thesis
    using run px st af cb before now later by blast
qed

theorem onCommitted_commitBitmap_aliased_witness:
  "bitmapOf sampleEnv (sampleMsg 7) = \<lparr>Bitmap = [7]\<rparr>
   \<and> ReadCommitSig sampleState1 4 = Inr [9, 3]
   \<and> map_option commitBitmapMask (stateOf (onCommitted sampleEnv [4, 9, 7] sampleState1))
       = Some (Some \<lparr>Bitmap = [3]\<rparr>)"
proof -
  have valid: "validCommitted sampleEnv sampleState1 (sampleMsg 7) sampleBlock"
    by (rule sample_valid) (simp_all add: sampleState1_def sampleState_def bitsSet_samples)
  have old: "ReadCommitSig sampleState1 (NumberU64 sampleBlock) = Inr [9, 3]"
    by (simp add: sample_defs ReadCommitSig_def)
  have len: "length [9, 3 :: byte] = length (Payload (sampleMsg 7))"
    by (simp add: sampleMsg_def)
  have frame: "\<And>s. tryCatchup sampleEnv s = s"
    by (simp add: sampleEnv_def)
  from onCommitted_commitBitmap_aliased [OF sample_parse valid old len]
  obtain x s' where "onCommitted sampleEnv [4, 9, 7] sampleState1 = Inr (x, s')"
    and "commitBitmapMask s' = Some \<lparr>Bitmap = drop (BLSSignatureSizeInBytes sampleEnv) [9, 3]\<rparr>"
    by (auto simp add: frame)
  then have "map_option commitBitmapMask (stateOf (onCommitted sampleEnv [4, 9, 7] sampleState1))
       = Some (Some \<lparr>Bitmap = [3]\<rparr>)"
    by (simp add: stateOf_def sampleEnv_def)
  then show ?thesis
    using old by (simp add: sampleBlock_def sampleMsg_def sampleEnv_def bitmapOf_def)
qed

subsection \<open>Outbound construction and broadcast\<close>

lemma perKeyMessages_eq:
  "perKeyMessages e s t p keys =
     map projr (filter (\<lambda>r. \<not> isl r) (map (\<lambda>key. construct e s t p [key]) keys))"
  by (induction keys) (auto split: sum.splits)

lemma perKeyMessages_length:
  "length (perKeyMessages e s t p keys) =
     length (filter (\<lambda>key. \<not> isl (construct e s t p [key])) keys)"
  by (induction keys) (auto split: sum.splits)

lemma sample_per_key:
  "constructP2pMessages sampleEnv sampleState t p (priKey sampleState) =
     [\<lparr>Phase = t, Bytes = 1 # p\<rparr>, \<lparr>Phase = t, Bytes = 3 # p\<rparr>]"
  by (simp add: constructP2pMessages_def sampleEnv_def sampleState_def)

text \<open>
  C7. With aggregate signing, \<open>constructP2pMessages\<close> returns the one message
  \<open>construct\<close> builds for all keys, or nothing if that fails. Without it, it returns,
  in key order, the messages of the keys for which \<open>construct\<close> succeeds and skips the
  others: as many messages as there are such keys, at most one per key. Some inputs
  give a result that is neither empty nor complete.
\<close>

theorem constructP2pMessages_count:
  "(AggregateSig s \<longrightarrow>
      constructP2pMessages e s t p keys =
        (case construct e s t p keys of Inl err \<Rightarrow> [] | Inr networkMessage \<Rightarrow> [networkMessage])
      \<and> length (constructP2pMessages e s t p keys) \<le> 1)
   \<and> (\<not> AggregateSig s \<longrightarrow>
      constructP2pMessages e s t p keys =
        map projr (filter (\<lambda>r. \<not> isl r) (map (\<lambda>key. construct e s t p [key]) keys))
      \<and> length (constructP2pMessages e s t p keys) =
          length (filter (\<lambda>key. \<not> isl (construct e s t p [key])) keys)
      \<and> length (constructP2pMessages e s t p keys) \<le> length keys)
   \<and> (\<exists>e' s' keys'. \<not> AggregateSig s'
         \<and> 0 < length (constructP2pMessages e' s' t p keys')
         \<and> length (constructP2pMessages e' s' t p keys') < length keys')"
proof -
  have agg: "AggregateSig s \<longrightarrow>
      constructP2pMessages e s t p keys =
        (case construct e s t p keys of Inl err \<Rightarrow> [] | Inr networkMessage \<Rightarrow> [networkMessage])
      \<and> length (constructP2pMessages e s t p keys) \<le> 1"
    by (simp add: constructP2pMessages_def split: sum.splits)
  have per: "\<not> AggregateSig s \<longrightarrow>
      constructP2pMessages e s t p keys =
        map projr (filter (\<lambda>r. \<not> isl r) (map (\<lambda>key. construct e s t p [key]) keys))
      \<and> length (constructP2pMessages e s t p keys) =
          length (filter (\<lambda>key. \<not> isl (construct e s t p [key])) keys)
      \<and> length (constructP2pMessages e s t p keys) \<le> length keys"
    using perKeyMessages_eq [of e s t p keys] perKeyMessages_length [of e s t p keys]
    by (simp add: constructP2pMessages_def)
  have "\<not> AggregateSig sampleState
      \<and> 0 < length (constructP2pMessages sampleEnv sampleState t p (priKey sampleState))
      \<and> length (constructP2pMessages sampleEnv sampleState t p (priKey sampleState))
          < length (priKey sampleState)"
    unfolding sample_per_key by (simp add: sampleState_def)
  then have partial: "\<exists>e' s' keys'. \<not> AggregateSig s'
         \<and> 0 < length (constructP2pMessages e' s' t p keys')
         \<and> length (constructP2pMessages e' s' t p keys') < length keys'"
    by blast
  show ?thesis
    using agg per partial by blast
qed

theorem constructP2pMessages_count_witness:
  "constructP2pMessages sampleEnv sampleState MessageType_PREPARE [] (priKey sampleState)
     = [\<lparr>Phase = MessageType_PREPARE, Bytes = [1]\<rparr>, \<lparr>Phase = MessageType_PREPARE, Bytes = [3]\<rparr>]
   \<and> length (priKey sampleState) = 3
   \<and> constructP2pMessages sampleEnv (sampleState\<lparr>AggregateSig := True\<rparr>) MessageType_COMMIT [5]
        (priKey sampleState)
     = [\<lparr>Phase = MessageType_COMMIT, Bytes = [1, 5]\<rparr>]
   \<and> constructP2pMessages sampleEnv (sampleState\<lparr>AggregateSig := True\<rparr>) MessageType_COMMIT [5] []
     = []"
  using constructP2pMessages_count
          [of sampleState sampleEnv MessageType_PREPARE "[]" "priKey sampleState"]
        constructP2pMessages_count
          [of "sampleState\<lparr>AggregateSig := True\<rparr>" sampleEnv MessageType_COMMIT "[5]"
              "priKey sampleState"]
        constructP2pMessages_count
          [of "sampleState\<lparr>AggregateSig := True\<rparr>" sampleEnv MessageType_COMMIT "[5]" "[]"]
  by (simp add: sampleEnv_def sampleState_def)

lemma transmitted_frame:
  assumes "ShardID s' = ShardID s" "current s' = current s"
  shows "transmitted e s' msgs = transmitted e s msgs"
proof -
  have "onWire e s' = onWire e s" "accepted e s' = accepted e s"
    using assms(1) by (simp_all add: fun_eq_iff onWire_def accepted_def)
  then show ?thesis
    using assms(2) by (simp add: transmitted_def)
qed

lemma transmitted_sent [simp]:
  "transmitted e (s\<lparr>sent := x\<rparr>) msgs = transmitted e s msgs"
  by (rule transmitted_frame) simp_all

lemma broadcast_transmitted:
  "snd (broadcastConsensusP2pMessages e msgs s) = s\<lparr>sent := sent s @ transmitted e s msgs\<rparr>"
proof (induction msgs arbitrary: s)
  case Nil
  show ?case by (simp add: transmitted_def)
next
  case (Cons p2pMsg rest)
  show ?case
  proof (cases "current s = Listening")
    case True
    with Cons.IH [of s] show ?thesis
      by (simp add: transmitted_def)
  next
    case False
    show ?thesis
    proof (cases "accepted e s p2pMsg")
      case True
      with False Cons.IH [of "s\<lparr>sent := sent s @ [onWire e s p2pMsg]\<rparr>"] show ?thesis
        by (simp add: accepted_def) (simp add: transmitted_def onWire_def accepted_def)
    next
      case no: False
      with False show ?thesis
        by (auto simp add: accepted_def transmitted_def)
    qed
  qed
qed

lemma prepare_state:
  "prepare e s =
     s\<lparr>sent := sent s @ transmitted e s
          (constructP2pMessages e s MessageType_PREPARE [] (getPriKeysInCommittee e s)),
       phase := FBFTPrepare\<rparr>"
  by (simp add: prepare_def Let_def switchPhase_def broadcast_transmitted)

subsection \<open>\<open>onAnnounce\<close>\<close>

lemma onAnnounce_parse_error:
  "ParseFBFTMessage e msg = (r, Some err) \<Longrightarrow>
   onAnnounce e msg s = (case r of None \<Rightarrow> Inl NilPointerDereference | Some m \<Rightarrow> Inr (Unparseable, s))"
  by (simp add: onAnnounce_def split: option.splits)

text \<open>
  C5. The error branch of \<open>onAnnounce\<close> logs \<open>recvMsg.BlockNum\<close>. On a raw message for
  which the parser returns an error and no message (a nil pointer), the handler
  panics on that read; \<open>onPrepared\<close> and \<open>onCommitted\<close>, which do not touch \<open>recvMsg\<close>
  on their error branches, return on the same input and leave the state as it was.
\<close>

theorem onAnnounce_unparseable_nil_dereference:
  "ParseFBFTMessage sampleEnv [] = (None, Some ''empty message'')
   \<and> onAnnounce sampleEnv [] sampleState = Inl NilPointerDereference
   \<and> onPrepared sampleEnv [] sampleState = Inr (Unparseable, sampleState)
   \<and> onCommitted sampleEnv [] sampleState = Inr (Unparseable, sampleState)"
  by (simp add: onAnnounce_def onPrepared_def onCommitted_def sampleEnv_def)

text \<open>
  C4, as the code has it. An announce message that parses and passes the sanity
  checks. In ViewChanging mode \<open>onAnnounce\<close> returns with the message appended to the
  log and the block hash set, and with nothing else changed: nothing is sent and the
  phase stays. Out of ViewChanging mode, and the view-ID check passing, it returns
  with the log and the block hash updated, the finality count started and the phase
  Prepare; of the PREPARE messages that \<open>constructP2pMessages\<close> builds for the node's
  committee keys, those in front of the first one the transport refuses are on the
  wire, and nothing else is changed. So all of them are sent when the transport
  accepts each, and none when the node is in Listening mode.
\<close>

theorem onAnnounce_view_changing_or_prepare:
  assumes parse: "ParseFBFTMessage e msg = (Some m, None)"
      and sane: "onAnnounceSanityChecks e s m"
  shows "(current s = ViewChanging \<longrightarrow>
            onAnnounce e msg s =
              Inr (StillViewChanging, s\<lparr>fbftMessages := fbftMessages s @ [m], blockHash := BlockHash m\<rparr>))
       \<and> (current s \<noteq> ViewChanging \<and> checkViewID e (announced m s) m = None \<longrightarrow>
            (\<exists>s'. onAnnounce e msg s = Inr (Completed, s')
               \<and> s' = s\<lparr>fbftMessages := fbftMessages s @ [m], blockHash := BlockHash m,
                         finalityCounter := True,
                         sent := sent s @ transmitted e s
                           (constructP2pMessages e (StartFinalityCount (announced m s))
                              MessageType_PREPARE []
                              (getPriKeysInCommittee e (StartFinalityCount (announced m s)))),
                         phase := FBFTPrepare\<rparr>
               \<and> s' = prepare e (StartFinalityCount (announced m s))
               \<and> phase s' = FBFTPrepare
               \<and> fbftMessages s' = fbftMessages s @ [m]
               \<and> blockHash s' = BlockHash m
               \<and> (current s \<noteq> Listening \<and> (\<forall>g bs. SendWithoutRetry e g bs = None) \<longrightarrow>
                    sent s' = sent s @ map (onWire e s)
                      (constructP2pMessages e (StartFinalityCount (announced m s)) MessageType_PREPARE []
                         (getPriKeysInCommittee e (StartFinalityCount (announced m s)))))
               \<and> (current s = Listening \<longrightarrow> sent s' = sent s)))"
proof -
  let ?a = "StartFinalityCount (announced m s)"
  let ?msgs = "constructP2pMessages e ?a MessageType_PREPARE [] (getPriKeysInCommittee e ?a)"
  let ?s' = "s\<lparr>fbftMessages := fbftMessages s @ [m], blockHash := BlockHash m,
               finalityCounter := True, sent := sent s @ transmitted e s ?msgs,
               phase := FBFTPrepare\<rparr>"
  have vc: "onAnnounce e msg s = Inr (StillViewChanging, announced m s)"
    if "current s = ViewChanging"
    using parse sane that
    by (simp add: onAnnounce_def Let_def AddMessage_def IsViewChangingMode_def announced_def)
  have go: "onAnnounce e msg s = Inr (Completed, prepare e ?a)"
    if "current s \<noteq> ViewChanging" "checkViewID e (announced m s) m = None"
    using parse sane that
    by (simp add: onAnnounce_def Let_def AddMessage_def IsViewChangingMode_def announced_def)
  have tr: "transmitted e ?a ?msgs = transmitted e s ?msgs"
    by (rule transmitted_frame) (simp_all add: StartFinalityCount_def announced_def)
  have st: "prepare e ?a = ?s'"
    unfolding prepare_state tr by (simp add: StartFinalityCount_def announced_def)
  have all: "transmitted e s ?msgs = map (onWire e s) ?msgs"
    if "current s \<noteq> Listening" "\<forall>g bs. SendWithoutRetry e g bs = None"
  proof -
    have "takeWhile (accepted e s) ?msgs = ?msgs"
      using that(2) by (simp add: accepted_def)
    then show ?thesis
      using that(1) by (simp add: transmitted_def del: takeWhile_eq_all_conv)
  qed
  have none: "transmitted e s ?msgs = []" if "current s = Listening"
    using that by (simp add: transmitted_def)
  show ?thesis
    using vc go st all none by (simp add: announced_def)
qed

theorem onAnnounce_view_changing_or_prepare_witness:
  "onAnnounce sampleEnv [4, 9, 3] (sampleState\<lparr>current := ViewChanging\<rparr>)
     = Inr (StillViewChanging,
            sampleState\<lparr>current := ViewChanging, fbftMessages := [sampleMsg 3], blockHash := [1]\<rparr>)
   \<and> onAnnounce sampleEnv [4, 9, 3] sampleState
     = Inr (Completed,
            sampleState\<lparr>fbftMessages := [sampleMsg 3], blockHash := [1], finalityCounter := True,
                         sent := [(0, [1]), (0, [3])], phase := FBFTPrepare\<rparr>)"
proof -
  have sane: "\<And>s. onAnnounceSanityChecks sampleEnv s (sampleMsg 3)"
    by (simp add: sampleEnv_def)
  have view: "\<And>s. checkViewID sampleEnv s (sampleMsg 3) = None"
    by (simp add: sampleEnv_def)
  have tx: "transmitted sampleEnv sampleState
               (constructP2pMessages sampleEnv (StartFinalityCount (announced (sampleMsg 3) sampleState))
                  MessageType_PREPARE []
                  (getPriKeysInCommittee sampleEnv
                     (StartFinalityCount (announced (sampleMsg 3) sampleState))))
             = [(0, [1]), (0, [3])]"
    by (simp add: transmitted_def accepted_def onWire_def constructP2pMessages_def
          getPriKeysInCommittee_def sampleEnv_def sampleState_def StartFinalityCount_def
          announced_def)
  have f: "fbftMessages sampleState = []" "sent sampleState = []" "BlockHash (sampleMsg 3) = [1]"
    by (simp_all add: sampleState_def sampleMsg_def)
  have vc: "current (sampleState\<lparr>current := ViewChanging\<rparr>) = ViewChanging"
    by simp
  have nm: "current sampleState \<noteq> ViewChanging"
    by (simp add: sampleState_def)
  from onAnnounce_view_changing_or_prepare [OF sample_parse sane, of "sampleState\<lparr>current := ViewChanging\<rparr>"] vc
  have first: "onAnnounce sampleEnv [4, 9, 3] (sampleState\<lparr>current := ViewChanging\<rparr>)
     = Inr (StillViewChanging,
            sampleState\<lparr>current := ViewChanging, fbftMessages := [sampleMsg 3], blockHash := [1]\<rparr>)"
    by (simp add: sampleState_def sampleMsg_def)
  from onAnnounce_view_changing_or_prepare [OF sample_parse sane, of sampleState] nm view
  have second: "onAnnounce sampleEnv [4, 9, 3] sampleState
     = Inr (Completed,
            sampleState\<lparr>fbftMessages := [sampleMsg 3], blockHash := [1], finalityCounter := True,
                         sent := [(0, [1]), (0, [3])], phase := FBFTPrepare\<rparr>)"
    by (simp add: tx f)
  show ?thesis
    using first second by simp
qed

text \<open>
  C4 as stated fails: a node in Listening mode that is not in ViewChanging mode
  takes an announce message through parsing, the sanity checks and the view-ID check,
  builds two PREPARE messages and switches the phase to Prepare, and puts nothing on
  the wire; so does a node in Normal mode whose transport refuses the first message.
\<close>

theorem onAnnounce_listening_sends_nothing:
  "current (sampleState\<lparr>current := Listening\<rparr>) \<noteq> ViewChanging
   \<and> onAnnounceSanityChecks sampleEnv (sampleState\<lparr>current := Listening\<rparr>) (sampleMsg 3)
   \<and> checkViewID sampleEnv (announced (sampleMsg 3) (sampleState\<lparr>current := Listening\<rparr>))
        (sampleMsg 3) = None
   \<and> length (constructP2pMessages sampleEnv
        (StartFinalityCount (announced (sampleMsg 3) (sampleState\<lparr>current := Listening\<rparr>)))
        MessageType_PREPARE []
        (getPriKeysInCommittee sampleEnv
           (StartFinalityCount (announced (sampleMsg 3) (sampleState\<lparr>current := Listening\<rparr>))))) = 2
   \<and> onAnnounce sampleEnv [4, 9, 3] (sampleState\<lparr>current := Listening\<rparr>)
       = Inr (Completed,
              sampleState\<lparr>current := Listening, fbftMessages := [sampleMsg 3], blockHash := [1],
                           finalityCounter := True, phase := FBFTPrepare\<rparr>)
   \<and> sent sampleState = []
   \<and> current sampleState = Normal
   \<and> onAnnounce (sampleEnv\<lparr>SendWithoutRetry := (\<lambda>g bs. Some ''unreachable'')\<rparr>) [4, 9, 3] sampleState
       = Inr (Completed,
              sampleState\<lparr>fbftMessages := [sampleMsg 3], blockHash := [1],
                           finalityCounter := True, phase := FBFTPrepare\<rparr>)"
  by (simp add: onAnnounce_def sample_defs handler_defs announced_def)

subsection \<open>\<open>onPrepared\<close> and the resync trigger\<close>

lemma spinUpStateSync_fields [simp]:
  "blockNum (spinUpStateSync s) = blockNum s"
  "blockHash (spinUpStateSync s) = blockHash s"
  "phase (spinUpStateSync s) = phase s"
  "aggregatedPrepareSig (spinUpStateSync s) = aggregatedPrepareSig s"
  "prepareBitmap (spinUpStateSync s) = prepareBitmap s"
  "sent (spinUpStateSync s) = sent s"
  "masks (spinUpStateSync s) = masks s"
  by (simp_all add: spinUpStateSync_def)

text \<open>
  C6. A parsed prepared message whose block number is above the node's makes
  \<open>onPrepared\<close> call \<open>spinUpStateSync\<close> once and nothing else that touches the channel,
  the mode or the timers: whatever return statement the handler leaves through, these
  three are as that one call left them. The call is a \<open>select\<close> with a \<open>default\<close>
  branch, so it always returns: with an empty channel it puts one signal in, sets the
  mode to Syncing and stops every timer; with a signal already waiting it changes
  nothing. Hence calling it again right away changes nothing either.
\<close>

theorem onPrepared_resync_once:
  assumes parse: "ParseFBFTMessage e msg = (Some m, None)"
      and ahead: "BlockNum m > blockNum s"
  shows "(\<exists>x s'. onPrepared e msg s = Inr (x, s')
            \<and> BlockNumLowChan s' = BlockNumLowChan (spinUpStateSync s)
            \<and> current s' = current (spinUpStateSync s)
            \<and> consensusTimeout s' = consensusTimeout (spinUpStateSync s))
       \<and> (BlockNumLowChan s = 0 \<longrightarrow>
            spinUpStateSync s =
              s\<lparr>BlockNumLowChan := 1, current := Syncing, consensusTimeout := (\<lambda>v. False)\<rparr>)
       \<and> (BlockNumLowChan s \<noteq> 0 \<longrightarrow> spinUpStateSync s = s)
       \<and> spinUpStateSync (spinUpStateSync s) = spinUpStateSync s"
proof -
  have fresh: "\<not> BlockNum m < blockNum s"
    using ahead by simp
  have run: "\<exists>x s'. onPrepared e msg s = Inr (x, s')
            \<and> BlockNumLowChan s' = BlockNumLowChan (spinUpStateSync s)
            \<and> current s' = current (spinUpStateSync s)
            \<and> consensusTimeout s' = consensusTimeout (spinUpStateSync s)"
    using parse ahead fresh
    by (auto simp add: onPrepared_def Let_def split_beta ReadSignatureBitmapPayload_def
          AddMessage_def AddBlock_def MarkBlockVerified_def
          split: sum.splits option.splits)
  have empty: "spinUpStateSync s =
      s\<lparr>BlockNumLowChan := 1, current := Syncing, consensusTimeout := (\<lambda>v. False)\<rparr>"
    if "BlockNumLowChan s = 0"
    using that by (simp add: spinUpStateSync_def)
  have full: "spinUpStateSync s = s" if "BlockNumLowChan s \<noteq> 0"
    using that by (simp add: spinUpStateSync_def)
  have idem: "spinUpStateSync (spinUpStateSync s) = spinUpStateSync s"
    by (simp add: spinUpStateSync_def)
  show ?thesis
    using run empty full idem by blast
qed

lemma sample_prepared_ahead:
  "onPrepared sampleEnv [7, 9, 1] sampleState =
     Inr (QuorumNotAchieved,
          sampleState\<lparr>BlockNumLowChan := 1, current := Syncing, consensusTimeout := (\<lambda>v. False),
                       masks := [\<lparr>Bitmap = [1]\<rparr>]\<rparr>)"
  by (simp add: onPrepared_def sample_defs handler_defs bitsSet_samples)

theorem onPrepared_resync_once_witness:
  "BlockNumLowChan sampleState = 0
   \<and> spinUpStateSync sampleState =
       sampleState\<lparr>BlockNumLowChan := 1, current := Syncing, consensusTimeout := (\<lambda>v. False)\<rparr>
   \<and> spinUpStateSync (spinUpStateSync sampleState) = spinUpStateSync sampleState
   \<and> map_sum id (\<lambda>r. (BlockNumLowChan (snd r), current (snd r)))
         (onPrepared sampleEnv [7, 9, 1] sampleState) = Inr (1, Syncing)
   \<and> map_sum id (\<lambda>r. (BlockNumLowChan (snd r), current (snd r)))
         (onPrepared sampleEnv [7, 9, 1] (spinUpStateSync sampleState)) = Inr (1, Syncing)"
proof -
  have ahead: "\<And>s. blockNum s = 5 \<Longrightarrow> BlockNum \<lparr>ViewID = 0, BlockNum = ucast (7 :: byte), BlockHash = [1],
                  Payload = [9, 1], Block = [2]\<rparr> > blockNum s"
    by simp
  have b: "blockNum sampleState = 5" "BlockNumLowChan sampleState = 0"
    by (simp_all add: sampleState_def)
  have b': "blockNum (spinUpStateSync sampleState) = 5"
    using b by simp
  from onPrepared_resync_once [OF sample_parse_any ahead, OF b(1)] b(2)
  have one: "spinUpStateSync sampleState =
       sampleState\<lparr>BlockNumLowChan := 1, current := Syncing, consensusTimeout := (\<lambda>v. False)\<rparr>"
    and idem: "spinUpStateSync (spinUpStateSync sampleState) = spinUpStateSync sampleState"
    and "\<exists>x s'. onPrepared sampleEnv [7, 9, 1] sampleState = Inr (x, s')
            \<and> BlockNumLowChan s' = BlockNumLowChan (spinUpStateSync sampleState)
            \<and> current s' = current (spinUpStateSync sampleState)"
    by auto
  then have first: "map_sum id (\<lambda>r. (BlockNumLowChan (snd r), current (snd r)))
         (onPrepared sampleEnv [7, 9, 1] sampleState) = Inr (1, Syncing)"
    by auto
  from onPrepared_resync_once [OF sample_parse_any ahead, OF b'] idem
  have "\<exists>x s'. onPrepared sampleEnv [7, 9, 1] (spinUpStateSync sampleState) = Inr (x, s')
            \<and> BlockNumLowChan s' = BlockNumLowChan (spinUpStateSync sampleState)
            \<and> current s' = current (spinUpStateSync sampleState)"
    by auto
  then have second: "map_sum id (\<lambda>r. (BlockNumLowChan (snd r), current (snd r)))
         (onPrepared sampleEnv [7, 9, 1] (spinUpStateSync sampleState)) = Inr (1, Syncing)"
    using one by auto
  show ?thesis
    using b(2) one idem first second by simp
qed

lemma resynced_prepare_fields [simp]:
  "blockHash (resynced m s) = blockHash s"
  "phase (resynced m s) = phase s"
  "aggregatedPrepareSig (resynced m s) = aggregatedPrepareSig s"
  "prepareBitmap (resynced m s) = prepareBitmap s"
  "sent (resynced m s) = sent s"
  by (simp_all add: resynced_def)

lemma onPrepared_no_quorum:
  assumes parse: "ParseFBFTMessage e msg = (Some m, None)"
      and nq: "\<not> IsQuorumAchievedByMask e (bitmapOf e m)"
  shows "onPrepared e msg s = Inr (WrongBlockNum, s)
       \<or> onPrepared e msg s = Inr (PayloadReadFailed, resynced m s)
       \<or> onPrepared e msg s =
           Inr (QuorumNotAchieved, (resynced m s)\<lparr>masks := masks s @ [bitmapOf e m]\<rparr>)"
  using assms
  by (cases "blockNum s < BlockNum m")
     (auto simp add: onPrepared_def Let_def ReadSignatureBitmapPayload_def bitmapOf_def resynced_def)

text \<open>
  C2, as the code has it. A parsed prepared message whose bitmap fails the quorum
  check makes \<open>onPrepared\<close> return through the stale, the unreadable-payload or the
  no-quorum return. Nothing is sent, and \<open>blockHash\<close>, \<open>phase\<close>,
  \<open>aggregatedPrepareSig\<close> and \<open>prepareBitmap\<close> are unchanged. The state differs from
  the one the resync trigger leaves at most by the mask object allocated for the
  check, which no field points to: so a message that is not ahead of the node changes
  no field, and a message that is ahead changes what \<open>spinUpStateSync\<close> changes (the
  channel, the mode, the timers), since the trigger runs before the quorum check.
\<close>

theorem onPrepared_no_quorum_frame:
  assumes parse: "ParseFBFTMessage e msg = (Some m, None)"
      and nq: "\<not> IsQuorumAchievedByMask e (bitmapOf e m)"
  shows "\<exists>x s'. onPrepared e msg s = Inr (x, s')
           \<and> (x = WrongBlockNum \<or> x = PayloadReadFailed \<or> x = QuorumNotAchieved)
           \<and> sent s' = sent s
           \<and> blockHash s' = blockHash s
           \<and> phase s' = phase s
           \<and> aggregatedPrepareSig s' = aggregatedPrepareSig s
           \<and> prepareBitmap s' = prepareBitmap s
           \<and> take (length (masks s)) (masks s') = masks s
           \<and> s'\<lparr>masks := masks s\<rparr> = (if BlockNum m > blockNum s then spinUpStateSync s else s)"
proof -
  have same: "(resynced m s)\<lparr>masks := masks s\<rparr> = resynced m s"
    by (simp add: resynced_def spinUpStateSync_def)
  have "(resynced m s)\<lparr>masks := masks s\<rparr> =
          (if BlockNum m > blockNum s then spinUpStateSync s else s)"
    unfolding same by (simp add: resynced_def)
  moreover have "s\<lparr>masks := masks s\<rparr> = (if BlockNum m > blockNum s then spinUpStateSync s else s)"
    if "onPrepared e msg s = Inr (WrongBlockNum, s)"
  proof -
    have "BlockNum m < blockNum s"
      using that parse
      by (cases "blockNum s < BlockNum m")
         (auto simp add: onPrepared_def Let_def ReadSignatureBitmapPayload_def split_beta
               spinUpStateSync_def
               split: if_splits sum.splits option.splits)
    then show ?thesis by simp
  qed
  ultimately show ?thesis
    using onPrepared_no_quorum [OF parse nq, of s] by (elim disjE) auto
qed

theorem onPrepared_no_quorum_frame_witness:
  "\<not> IsQuorumAchievedByMask sampleEnv \<lparr>Bitmap = [1]\<rparr>
   \<and> onPrepared sampleEnv [5, 9, 1] sampleState
       = Inr (QuorumNotAchieved, sampleState\<lparr>masks := [\<lparr>Bitmap = [1]\<rparr>]\<rparr>)"
proof -
  have nq: "\<not> IsQuorumAchievedByMask sampleEnv
               (bitmapOf sampleEnv \<lparr>ViewID = 0, BlockNum = ucast (5 :: byte), BlockHash = [1],
                  Payload = [9, 1], Block = [2]\<rparr>)"
    by (simp add: sampleEnv_def bitmapOf_def CountEnabled_def bitsSet_samples)
  have run: "onPrepared sampleEnv [5, 9, 1] sampleState
       = Inr (QuorumNotAchieved, sampleState\<lparr>masks := [\<lparr>Bitmap = [1]\<rparr>]\<rparr>)"
    by (simp add: onPrepared_def sample_defs handler_defs bitsSet_samples)
  from onPrepared_no_quorum_frame [OF sample_parse_any nq, of sampleState] run
  have "sampleState\<lparr>masks := masks sampleState\<rparr> = sampleState"
    by (simp add: sampleState_def)
  with nq run show ?thesis
    by (simp add: bitmapOf_def sampleEnv_def)
qed

text \<open>
  C2 as stated fails: the prepared message for block 7 with a single signer fails the
  quorum check at a node at block 5 in Normal mode, and \<open>onPrepared\<close> returns with the
  mode set to Syncing, the bootstrap timer stopped and a signal in the channel.
\<close>

theorem onPrepared_no_quorum_changes_mode:
  "\<not> IsQuorumAchievedByMask sampleEnv \<lparr>Bitmap = [1]\<rparr>
   \<and> onPrepared sampleEnv [7, 9, 1] sampleState =
       Inr (QuorumNotAchieved,
            sampleState\<lparr>BlockNumLowChan := 1, current := Syncing, consensusTimeout := (\<lambda>v. False),
                         masks := [\<lparr>Bitmap = [1]\<rparr>]\<rparr>)
   \<and> current sampleState = Normal
   \<and> consensusTimeout sampleState timeoutBootstrap
   \<and> BlockNumLowChan sampleState = 0"
  using sample_prepared_ahead
  by (simp add: sampleEnv_def sampleState_def CountEnabled_def bitsSet_samples)

end
